theory Spec2Isabelle
  imports Main
begin

section \<open>Data model of \<open>stac_fastapi.api.app\<close>\<close>

text \<open>
  The module \<open>app.py\<close> defines one class, \<open>StacApi\<close>, whose \<open>__attrs_post_init__\<close>
  assembles a FastAPI application: it injects attributes into the client, registers the
  core routes on \<open>self.router\<close>, includes that router in \<open>self.app\<close>, lets every
  extension register itself, adds the health check, and finally applies the
  route-dependency overlays. The model follows the methods one by one as functions that
  take \<open>self\<close> and return the updated \<open>self\<close>.

  Classes that the module only passes around are kept as values of datatypes: response
  models (\<open>stac_pydantic\<close>), request models (\<open>stac_fastapi.api.models\<close>,
  \<open>stac_fastapi.types.search\<close>), response classes and extension classes.
\<close>

datatype response_schema =
  LandingPage | ConformanceClasses | Item | ItemCollection | Collections | Catalogs
  | Collection | Catalog | Response_schema string

datatype request_class =
  EmptyRequest | ItemUri | CollectionUri | CatalogUri | ItemCollectionUri | BaseModel
  | BaseSearchGetRequest | BaseSearchPostRequest | BaseCatalogSearchGetRequest
  | CatalogSearchPostRequest | Request_class string

text \<open>
  \<open>create_request_model\<close> lives in \<open>stac_fastapi.api.models\<close>, which is not part of the
  sources at hand. A call of it is kept as the term of its three arguments (model name,
  \<open>base_model\<close>, \<open>mixins\<close>), so nothing is assumed about how the classes are merged.
  \<open>mixins\<close> is \<open>None\<close> or a list whose entries are the \<open>GET\<close> attributes of extensions
  (a class, or \<open>None\<close> for an extension without one).
\<close>

datatype request_model =
  Request request_class
  | create_request_model string request_class "request_class option list option"

datatype response_class = JSONResponse | GeoJSONResponse | Response_class string

datatype client_method =
  landing_page | conformance | get_item | post_global_search | get_global_search
  | post_search | get_search | all_collections | all_catalogs | get_catalog_collections
  | get_collection | get_catalog | item_collection

text \<open>
  \<open>create_async_endpoint\<close> (\<open>stac_fastapi.api.routes\<close>) wraps a client method and a request
  model into a handler; the handler is kept as that pair. \<open>ping\<close> is the handler that
  \<open>add_health_check\<close> defines; \<open>Ext_endpoint\<close> stands for the handlers of routes that
  do not come from this module: those that extensions bring along and those the
  application already has (its OpenAPI and documentation pages).
\<close>

datatype endpoint =
  create_async_endpoint client_method request_model
  | ping_endpoint
  | Ext_endpoint string

text \<open>A FastAPI dependency (\<open>Depends(f)\<close>) is identified by the callable it wraps.\<close>

datatype depends = Depends string

record route =
  name :: string
  path :: string
  response_model :: "response_schema option"
  response_class :: response_class
  response_model_exclude_unset :: bool
  response_model_exclude_none :: bool
  methods :: "string list"
  endpoint :: endpoint
  dependencies :: "depends list"
  tags :: "string list"

datatype ext_class =
  CollectionSearchExtension | ContextExtension | DiscoverySearchExtension | FieldsExtension
  | FilterExtension | PaginationExtension | QueryExtension | SortExtension
  | TokenPaginationExtension | TransactionExtension | Ext_class string

text \<open>
  An extension instance. \<open>ext_classes\<close> lists the class of the instance and all its base
  classes, which is what \<open>isinstance\<close> consults. \<open>GET\<close> is the class attribute read by
  \<open>register_get_item_collection\<close>, \<open>default_includes\<close> the attribute read by
  \<open>__attrs_post_init__\<close>. \<open>truthy\<close> is the truth value of the instance, which the module
  tests with \<open>if fields_ext\<close> and \<open>not fields_ext\<close>: true for an ordinary instance, false
  for an instance of a class whose \<open>__bool__\<close> or \<open>__len__\<close> says so. \<open>ext_routes\<close> are the
  routes that the \<open>register\<close> hook of the instance adds to the application (see
  \<open>register\<close> below); an extension without routes has none.
\<close>

record extension =
  ext_classes :: "ext_class list"
  truthy :: bool
  GET :: "request_class option"
  POST :: "request_class option"
  conformance_classes :: "string list"
  default_includes :: "string set"
  ext_routes :: "route list"

record api_settings =
  stac_fastapi_title :: string
  stac_fastapi_description :: string
  stac_fastapi_version :: string
  enable_response_models :: bool
  openapi_url :: string
  docs_url :: string
  settings_default_includes :: "string set"

record core_client =
  client_extensions :: "extension list"
  client_stac_version :: string
  client_title :: string
  client_description :: string

datatype middleware = BrotliMiddleware | CORSMiddleware | ProxyHeaderMiddleware | Middleware string

text \<open>
  The FastAPI application, as far as the module touches it: the route table
  \<open>app.router.routes\<close>, the dependencies and tags of the application's own router
  (\<open>FastAPI(dependencies=...)\<close>), which FastAPI puts in front of those of every route it
  adds, the two entries of \<open>app.state\<close>, the exception handlers installed by
  \<open>add_exception_handlers\<close>, the middleware stack and whether \<open>app.openapi\<close> has been
  replaced by \<open>customize_openapi\<close>. The application's own router has no prefix.
\<close>

record fastapi =
  routes :: "route list"
  app_dependencies :: "depends list"
  app_tags :: "string list"
  state_settings :: "api_settings option"
  state_router_prefix :: "string option"
  exception_handlers :: "string \<rightharpoonup> nat"
  user_middleware :: "middleware list"
  openapi_customized :: bool

record apirouter =
  router_prefix :: string
  router_dependencies :: "depends list"
  router_tags :: "string list"
  router_routes :: "route list"

record scope =
  scope_path :: string
  scope_method :: string

text \<open>
  The attributes of \<open>StacApi\<close>, after \<open>attrs\<close> has filled in the defaults and before
  \<open>__attrs_post_init__\<close> runs. \<open>Settings_singleton\<close> is the process-wide value behind
  \<open>Settings.set\<close>/\<open>Settings.get\<close> (\<open>stac_fastapi.types.config\<close>), carried along with
  \<open>self\<close>.
\<close>

record stac_api =
  settings :: api_settings
  client :: core_client
  extensions :: "extension list"
  exceptions :: "string \<rightharpoonup> nat"
  app :: fastapi
  router :: apirouter
  title :: string
  api_version :: string
  stac_version :: string
  description :: string
  search_get_request_model :: request_model
  search_post_request_model :: request_model
  search_catalog_get_request_model :: request_model
  search_catalog_post_request_model :: request_model
  pagination_extension :: ext_class
  api_response_class :: response_class
  middlewares :: "middleware list"
  route_dependencies :: "(scope list \<times> depends list) list"
  collections_get_request_model :: request_model
  collections_post_request_model :: request_model
  Settings_singleton :: "api_settings option"

section \<open>Extension lookup\<close>

definition isinstance :: "extension \<Rightarrow> ext_class \<Rightarrow> bool" where
  "isinstance ext c = (c \<in> set (ext_classes ext))"

text \<open>The loop of \<open>get_extension\<close>: return at the first instance, \<open>None\<close> after the loop.\<close>

fun get_extension_loop :: "extension list \<Rightarrow> ext_class \<Rightarrow> extension option" where
  "get_extension_loop [] c = None"
| "get_extension_loop (ext # exts) c =
     (if isinstance ext c then Some ext else get_extension_loop exts c)"

definition get_extension :: "stac_api \<Rightarrow> ext_class \<Rightarrow> extension option" where
  "get_extension self c = get_extension_loop (extensions self) c"

text \<open>
  Python's truth value of what \<open>get_extension\<close> returns: \<open>None\<close> is false, an instance has
  the truth value of its class.
\<close>

fun truth_value :: "extension option \<Rightarrow> bool" where
  "truth_value None = False"
| "truth_value (Some ext) = truthy ext"

section \<open>Route registration\<close>

text \<open>
  \<open>APIRouter.add_api_route\<close> appends a route whose path is the router's prefix followed
  by the given path, and whose dependencies and tags are the router's own followed by
  those given. The module passes the eight keyword arguments below and neither
  dependencies nor tags. FastAPI performs no check against the routes already present.
\<close>

definition api_route ::
  "string \<Rightarrow> string \<Rightarrow> response_schema option \<Rightarrow> response_class \<Rightarrow> bool \<Rightarrow> bool \<Rightarrow>
   string list \<Rightarrow> endpoint \<Rightarrow> route" where
  "api_route n p rm rc unset none ms e =
     \<lparr>name = n, path = p, response_model = rm, response_class = rc,
      response_model_exclude_unset = unset, response_model_exclude_none = none,
      methods = ms, endpoint = e, dependencies = [], tags = []\<rparr>"

definition add_api_route :: "route \<Rightarrow> apirouter \<Rightarrow> apirouter" where
  "add_api_route r rt =
     rt\<lparr>router_routes := router_routes rt @
        [r\<lparr>path := router_prefix rt @ path r,
           dependencies := router_dependencies rt @ dependencies r,
           tags := router_tags rt @ tags r\<rparr>]\<rparr>"

definition register_landing_page :: "stac_api \<Rightarrow> stac_api" where
  "register_landing_page self =
     self\<lparr>router := add_api_route
       (api_route ''Landing Page'' ''/''
          (if enable_response_models (settings self) then Some LandingPage else None)
          (api_response_class self) False True [''GET'']
          (create_async_endpoint landing_page (Request EmptyRequest)))
       (router self)\<rparr>"

definition register_conformance_classes :: "stac_api \<Rightarrow> stac_api" where
  "register_conformance_classes self =
     self\<lparr>router := add_api_route
       (api_route ''Conformance Classes'' ''/conformance''
          (if enable_response_models (settings self) then Some ConformanceClasses else None)
          (api_response_class self) True True [''GET'']
          (create_async_endpoint conformance (Request EmptyRequest)))
       (router self)\<rparr>"

definition register_get_item :: "stac_api \<Rightarrow> stac_api" where
  "register_get_item self =
     self\<lparr>router := add_api_route
       (api_route ''Get Item''
          ''/catalogs/{catalog_id}/collections/{collection_id}/items/{item_id}''
          (if enable_response_models (settings self) then Some Item else None)
          GeoJSONResponse True True [''GET'']
          (create_async_endpoint get_item (Request ItemUri)))
       (router self)\<rparr>"

definition register_post_global_search :: "stac_api \<Rightarrow> stac_api" where
  "register_post_global_search self =
     (let fields_ext = get_extension self FieldsExtension in
      self\<lparr>router := add_api_route
        (api_route ''Search'' ''/search''
           (if enable_response_models (settings self)
            then (if \<not> truth_value fields_ext then Some ItemCollection else None)
            else None)
           GeoJSONResponse True True [''POST'']
           (create_async_endpoint post_global_search (search_post_request_model self)))
        (router self)\<rparr>)"

definition register_get_global_search :: "stac_api \<Rightarrow> stac_api" where
  "register_get_global_search self =
     (let fields_ext = get_extension self FieldsExtension in
      self\<lparr>router := add_api_route
        (api_route ''Search'' ''/search''
           (if enable_response_models (settings self)
            then (if \<not> truth_value fields_ext then Some ItemCollection else None)
            else None)
           GeoJSONResponse True True [''GET'']
           (create_async_endpoint get_global_search (search_get_request_model self)))
        (router self)\<rparr>)"

definition register_post_search :: "stac_api \<Rightarrow> stac_api" where
  "register_post_search self =
     (let fields_ext = get_extension self FieldsExtension in
      self\<lparr>router := add_api_route
        (api_route ''Catalog Item Search'' ''/catalogs/{catalog_id}/search''
           (if enable_response_models (settings self)
            then (if \<not> truth_value fields_ext then Some ItemCollection else None)
            else None)
           GeoJSONResponse True True [''POST'']
           (create_async_endpoint post_search (search_catalog_post_request_model self)))
        (router self)\<rparr>)"

definition register_get_search :: "stac_api \<Rightarrow> stac_api" where
  "register_get_search self =
     (let fields_ext = get_extension self FieldsExtension in
      self\<lparr>router := add_api_route
        (api_route ''Catalog Item Search'' ''/catalogs/{catalog_id}/search''
           (if enable_response_models (settings self)
            then (if \<not> truth_value fields_ext then Some ItemCollection else None)
            else None)
           GeoJSONResponse True True [''GET'']
           (create_async_endpoint get_search (search_catalog_get_request_model self)))
        (router self)\<rparr>)"

definition register_get_collections :: "stac_api \<Rightarrow> stac_api" where
  "register_get_collections self =
     (let collection_search_ext = get_extension self CollectionSearchExtension in
      self\<lparr>router := add_api_route
        (api_route ''Get Collections'' ''/collections''
           (if enable_response_models (settings self)
            then (if \<not> truth_value collection_search_ext then Some Collections else None)
            else None)
           (api_response_class self) True True [''GET'']
           (create_async_endpoint all_collections (collections_get_request_model self)))
        (router self)\<rparr>)"

definition register_get_catalogs :: "stac_api \<Rightarrow> stac_api" where
  "register_get_catalogs self =
     self\<lparr>router := add_api_route
       (api_route ''Get Catalogs'' ''/catalogs''
          (if enable_response_models (settings self) then Some Catalogs else None)
          (api_response_class self) True True [''GET'']
          (create_async_endpoint all_catalogs (Request EmptyRequest)))
       (router self)\<rparr>"

definition register_get_catalog_collections :: "stac_api \<Rightarrow> stac_api" where
  "register_get_catalog_collections self =
     self\<lparr>router := add_api_route
       (api_route ''Get CatalogCollections'' ''/catalogs/{catalog_id}/collections''
          (if enable_response_models (settings self) then Some Collections else None)
          (api_response_class self) True True [''GET'']
          (create_async_endpoint get_catalog_collections (Request CatalogUri)))
       (router self)\<rparr>"

definition register_get_collection :: "stac_api \<Rightarrow> stac_api" where
  "register_get_collection self =
     self\<lparr>router := add_api_route
       (api_route ''Get Collection'' ''/catalogs/{catalog_id}/collections/{collection_id}''
          (if enable_response_models (settings self) then Some Collection else None)
          (api_response_class self) True True [''GET'']
          (create_async_endpoint get_collection (Request CollectionUri)))
       (router self)\<rparr>"

definition register_get_catalog :: "stac_api \<Rightarrow> stac_api" where
  "register_get_catalog self =
     self\<lparr>router := add_api_route
       (api_route ''Get Catalog'' ''/catalogs/{catalog_id}''
          (if enable_response_models (settings self) then Some Catalog else None)
          (api_response_class self) True True [''GET'']
          (create_async_endpoint get_catalog (Request CatalogUri)))
       (router self)\<rparr>"

definition register_get_item_collection :: "stac_api \<Rightarrow> stac_api" where
  "register_get_item_collection self =
     (let pagination_ext = get_extension self (pagination_extension self);
          mixins = (case pagination_ext of Some ext \<Rightarrow> Some [GET ext] | None \<Rightarrow> None);
          request_model = create_request_model ''ItemCollectionURI'' ItemCollectionUri mixins
      in self\<lparr>router := add_api_route
        (api_route ''Get ItemCollection''
           ''/catalogs/{catalog_id}/collections/{collection_id}/items''
           (if enable_response_models (settings self) then Some ItemCollection else None)
           GeoJSONResponse True True [''GET'']
           (create_async_endpoint item_collection request_model))
        (router self)\<rparr>)"

definition register_core :: "stac_api \<Rightarrow> stac_api" where
  "register_core self =
     (let self = register_landing_page self;
          self = register_conformance_classes self;
          self = register_get_item self;
          self = register_post_global_search self;
          self = register_get_global_search self;
          self = register_post_search self;
          self = register_get_search self;
          self = register_get_collections self;
          self = register_get_catalogs self;
          self = register_get_collection self;
          self = register_get_catalog self;
          self = register_get_item_collection self;
          self = register_get_catalog_collections self
      in self)"

section \<open>Health check\<close>

datatype error = AttributeError string

text \<open>The body returned by the handler \<open>ping\<close>: the dict \<open>{"message": "PONG"}\<close>.\<close>

definition ping :: "(string \<times> string) list" where
  "ping = [(''message'', ''PONG'')]"

text \<open>
  \<open>FastAPI.include_router\<close> hands each route of a router to \<open>add_api_route\<close> of the
  application's own router, which appends it to the application's route table: the tags
  given to the call go in front of the route's own tags, and the application's own
  dependencies and tags go in front of everything. \<open>included\<close> is what becomes of one
  route.
\<close>

definition included :: "fastapi \<Rightarrow> string list \<Rightarrow> route \<Rightarrow> route" where
  "included a tgs r =
     r\<lparr>dependencies := app_dependencies a @ dependencies r,
       tags := app_tags a @ tgs @ tags r\<rparr>"

definition include_router :: "apirouter \<Rightarrow> string list \<Rightarrow> fastapi \<Rightarrow> fastapi" where
  "include_router rt tgs a = a\<lparr>routes := routes a @ map (included a tgs) (router_routes rt)\<rparr>"

text \<open>
  \<open>add_health_check\<close> reads \<open>self.app.state.router_prefix\<close>, which raises AttributeError
  when the attribute has not been set. The decorator \<open>mgmt_router.get\<close> registers the
  function under its own name, with no response model and FastAPI's default response
  class.
\<close>

definition add_health_check :: "stac_api \<Rightarrow> error + stac_api" where
  "add_health_check self =
     (case state_router_prefix (app self) of
        None \<Rightarrow> Inl (AttributeError ''router_prefix'')
      | Some prefix \<Rightarrow>
          (let mgmt_router = \<lparr>router_prefix = prefix, router_dependencies = [],
                              router_tags = [], router_routes = []\<rparr>;
               mgmt_router = add_api_route
                 (api_route ''ping'' ''/_mgmt/ping'' None JSONResponse False False [''GET'']
                    ping_endpoint)
                 mgmt_router
           in Inr (self\<lparr>app := include_router mgmt_router [''Liveliness/Readiness'']
                                  (app self)\<rparr>)))"

section \<open>Route dependencies\<close>

text \<open>
  Modelled from the spec: \<open>add_route_dependencies\<close> of \<open>stac_fastapi.api.routes\<close> is not
  among the sources. The spec (Policy Overlay) says: for each route, its path template
  and method are compared against each selector of the overlay's scope list; matching is
  exact on the method and on the path template; on a match the overlay's dependency list
  is appended to the route's existing dependency chain.
\<close>

definition scope_matches :: "route \<Rightarrow> scope \<Rightarrow> bool" where
  "scope_matches r s = (path r = scope_path s \<and> scope_method s \<in> set (methods r))"

fun apply_scopes :: "route \<Rightarrow> scope list \<Rightarrow> depends list \<Rightarrow> route" where
  "apply_scopes r [] deps = r"
| "apply_scopes r (s # ss) deps =
     apply_scopes
       (if scope_matches r s then r\<lparr>dependencies := dependencies r @ deps\<rparr> else r) ss deps"

definition routes_add_route_dependencies ::
  "route list \<Rightarrow> scope list \<Rightarrow> depends list \<Rightarrow> route list" where
  "routes_add_route_dependencies rs scopes deps = map (\<lambda>r. apply_scopes r scopes deps) rs"

text \<open>The method of \<open>StacApi\<close>: it hands \<open>self.app.router.routes\<close> to the function above.\<close>

definition add_route_dependencies :: "stac_api \<Rightarrow> scope list \<Rightarrow> depends list \<Rightarrow> stac_api" where
  "add_route_dependencies self scopes deps =
     self\<lparr>app := (app self)\<lparr>routes :=
       routes_add_route_dependencies (routes (app self)) scopes deps\<rparr>\<rparr>"

section \<open>Assembly\<close>

text \<open>
  Modelled from the spec: \<open>ApiExtension.register\<close> (\<open>stac_fastapi.types.extension\<close>) and
  the hooks of the extension classes are not among the sources. The spec describes the
  hook as an optional route-registration hook by which an extension adds whole new routes;
  \<open>ext.register(self.app)\<close> appends the routes of the extension to the application's
  route table.
\<close>

definition register :: "extension \<Rightarrow> fastapi \<Rightarrow> fastapi" where
  "register ext a = a\<lparr>routes := routes a @ ext_routes ext\<rparr>"

text \<open>
  \<open>add_exception_handlers\<close> (\<open>stac_fastapi.api.errors\<close>, not among the sources) installs
  one handler per entry of the status-code table; \<open>Starlette.add_middleware\<close> puts the
  middleware in front of the stack.
\<close>

definition add_exception_handlers :: "fastapi \<Rightarrow> (string \<rightharpoonup> nat) \<Rightarrow> fastapi" where
  "add_exception_handlers a status_codes =
     a\<lparr>exception_handlers := exception_handlers a ++ status_codes\<rparr>"

definition add_middleware :: "fastapi \<Rightarrow> middleware \<Rightarrow> fastapi" where
  "add_middleware a m = a\<lparr>user_middleware := m # user_middleware a\<rparr>"

text \<open>
  \<open>__attrs_post_init__\<close>. The calls into code that is not among the sources
  (\<open>create_request_model\<close>, \<open>create_async_endpoint\<close>, the extension hooks,
  \<open>add_exception_handlers\<close>, \<open>add_route_dependencies\<close>) are represented by their results;
  an exception raised inside one of them would abort assembly and is not part of this
  model, so the properties below speak of an assembly that completes. The module's own
  code raises nowhere but in the attribute lookup of \<open>add_health_check\<close>.
\<close>

definition attrs_post_init :: "stac_api \<Rightarrow> error + stac_api" where
  "attrs_post_init self =
     (let self = self\<lparr>client := (client self)\<lparr>client_extensions := extensions self,
                                                client_stac_version := stac_version self,
                                                client_title := title self,
                                                client_description := description self\<rparr>\<rparr>;
          fields_ext = get_extension self FieldsExtension;
          self = (case fields_ext of
                    Some ext \<Rightarrow>
                      (if truth_value fields_ext
                       then self\<lparr>settings := (settings self)\<lparr>settings_default_includes :=
                                                                  default_includes ext\<rparr>\<rparr>
                       else self)
                  | None \<Rightarrow> self);
          self = self\<lparr>Settings_singleton := Some (settings self)\<rparr>;
          self = self\<lparr>app := (app self)\<lparr>state_settings := Some (settings self)\<rparr>\<rparr>;
          self = register_core self;
          self = self\<lparr>app := include_router (router self) [] (app self)\<rparr>;
          prefix = router_prefix (router self);
          self = self\<lparr>app := (app self)\<lparr>state_router_prefix :=
                                          Some (if prefix \<noteq> [] then prefix else [])\<rparr>\<rparr>;
          self = foldl (\<lambda>self ext. self\<lparr>app := register ext (app self)\<rparr>) self
                   (extensions self)
      in case add_health_check self of
           Inl e \<Rightarrow> Inl e
         | Inr self \<Rightarrow>
             (let self = self\<lparr>app := add_exception_handlers (app self) (exceptions self)\<rparr>;
                  self = self\<lparr>app := (app self)\<lparr>openapi_customized := True\<rparr>\<rparr>;
                  self = foldl (\<lambda>self m. self\<lparr>app := add_middleware (app self) m\<rparr>) self
                           (middlewares self);
                  self = foldl (\<lambda>self (scopes, deps). add_route_dependencies self scopes deps)
                           self (route_dependencies self)
              in Inr self))"

section \<open>Serving a request\<close>

text \<open>
  Modelled from the spec: routing a request is the work of the transport collaborator
  (FastAPI/Starlette), outside the sources. As far as the health check needs it: the
  first route of the table whose path template matches the URL and whose methods contain
  the request's method handles the request; the guards of its dependency chain run
  before the handler, and a guard that refuses the request ends it. \<open>matches\<close> (path
  template against URL), \<open>passes\<close> (which guards let this request through) and
  \<open>result\<close> (what the client's and the extensions' handlers return) are parameters;
  only the body of \<open>ping\<close> is fixed by the module. The middleware stack is in front of
  the router and outside this function: \<open>serve\<close> says what happens to a request that
  reaches the route table.
\<close>

datatype response = Not_found | Refused depends | Returned "(string \<times> string) list"

fun call_endpoint :: "(endpoint \<Rightarrow> (string \<times> string) list) \<Rightarrow> endpoint \<Rightarrow> (string \<times> string) list" where
  "call_endpoint result ping_endpoint = ping"
| "call_endpoint result e = result e"

definition serve ::
  "(string \<Rightarrow> string \<Rightarrow> bool) \<Rightarrow> (depends \<Rightarrow> bool) \<Rightarrow> (endpoint \<Rightarrow> (string \<times> string) list) \<Rightarrow>
   route list \<Rightarrow> string \<Rightarrow> string \<Rightarrow> response" where
  "serve matches passes result table method url =
     (case find (\<lambda>r. matches (path r) url \<and> method \<in> set (methods r)) table of
        None \<Rightarrow> Not_found
      | Some r \<Rightarrow>
          (case find (\<lambda>d. \<not> passes d) (dependencies r) of
             Some d \<Rightarrow> Refused d
           | None \<Rightarrow> Returned (call_endpoint result (endpoint r))))"

section \<open>Notions used to state the properties\<close>

text \<open>
  The routes a registration method adds to \<open>self.router\<close>: what the router holds after
  the call beyond what it held before.
\<close>

definition registered_by :: "(stac_api \<Rightarrow> stac_api) \<Rightarrow> stac_api \<Rightarrow> route list" where
  "registered_by f self =
     drop (length (router_routes (router self))) (router_routes (router (f self)))"

text \<open>
  The route that \<open>add_health_check\<close> registers on its management router, for a given
  router prefix; the application then includes it with the tag \<open>Liveliness/Readiness\<close>.
\<close>

definition health_check_route :: "string \<Rightarrow> route" where
  "health_check_route prefix =
     \<lparr>name = ''ping'', path = prefix @ ''/_mgmt/ping'', response_model = None,
      response_class = JSONResponse, response_model_exclude_unset = False,
      response_model_exclude_none = False, methods = [''GET''], endpoint = ping_endpoint,
      dependencies = [], tags = []\<rparr>"

text \<open>
  The route table at the moment the loop over \<open>route_dependencies\<close> starts: the routes the
  application had when \<open>StacApi\<close> was constructed, the routes the router had and the
  core routes as the application includes them, the routes of the extensions in list
  order, and the health check as included. \<open>core_offset\<close> is the index of the first core
  route in it.
\<close>

definition table_before_overlays :: "stac_api \<Rightarrow> route list" where
  "table_before_overlays self =
     routes (app self)
     @ map (included (app self) [])
         (router_routes (router self) @ registered_by register_core self)
     @ concat (map ext_routes (extensions self))
     @ [included (app self) [''Liveliness/Readiness'']
          (health_check_route (router_prefix (router self)))]"

definition core_offset :: "stac_api \<Rightarrow> nat" where
  "core_offset self = length (routes (app self)) + length (router_routes (router self))"

text \<open>The settings after the assignment guarded by \<open>if fields_ext\<close>.\<close>

definition injected_settings :: "stac_api \<Rightarrow> api_settings" where
  "injected_settings self =
     (case get_extension self FieldsExtension of
        Some ext \<Rightarrow>
          (if truthy ext
           then (settings self)\<lparr>settings_default_includes := default_includes ext\<rparr>
           else settings self)
      | None \<Rightarrow> settings self)"

text \<open>The last loop of \<open>__attrs_post_init__\<close>, on the route table alone.\<close>

definition apply_overlays :: "(scope list \<times> depends list) list \<Rightarrow> route list \<Rightarrow> route list" where
  "apply_overlays overlays table =
     foldl (\<lambda>t (scopes, deps). routes_add_route_dependencies t scopes deps) table overlays"

text \<open>
  What the overlays add to one route: for each overlay in declaration order, its
  dependency list once per selector that matches the route.
\<close>

definition overlay_dependencies :: "(scope list \<times> depends list) list \<Rightarrow> route \<Rightarrow> depends list" where
  "overlay_dependencies overlays r =
     concat (map (\<lambda>(scopes, deps).
                    concat (replicate (length (filter (scope_matches r) scopes)) deps))
       overlays)"

text \<open>The object after \<open>__attrs_post_init__\<close> has returned (\<open>self\<close> itself had it raised).\<close>

definition assembled :: "stac_api \<Rightarrow> stac_api" where
  "assembled self = (case attrs_post_init self of Inr self' \<Rightarrow> self' | Inl e \<Rightarrow> self)"

text \<open>The (path, method) pairs of a route table, one per method of each route.\<close>

definition route_keys :: "route list \<Rightarrow> (string \<times> string) list" where
  "route_keys table = concat (map (\<lambda>r. map (\<lambda>m. (path r, m)) (methods r)) table)"

text \<open>The column of a route that the response-model properties read.\<close>

definition declared :: "route \<Rightarrow> string list \<times> string \<times> response_schema option" where
  "declared r = (methods r, path r, response_model r)"

text \<open>
  The five stages of the documented registration order, by the client method a route
  serves: 0 the landing page, 1 the conformance classes, 2 the item-level routes (one
  item, the items of a collection), 3 the search routes, 4 the collection and catalog
  routes (the listings of collections and catalogs, one collection, one catalog). A
  route that serves no client method has no stage.
\<close>

fun method_stage :: "client_method \<Rightarrow> nat" where
  "method_stage landing_page = 0"
| "method_stage conformance = 1"
| "method_stage get_item = 2"
| "method_stage item_collection = 2"
| "method_stage post_global_search = 3"
| "method_stage get_global_search = 3"
| "method_stage post_search = 3"
| "method_stage get_search = 3"
| "method_stage all_collections = 4"
| "method_stage all_catalogs = 4"
| "method_stage get_catalog_collections = 4"
| "method_stage get_collection = 4"
| "method_stage get_catalog = 4"

fun documented_stage :: "endpoint \<Rightarrow> nat option" where
  "documented_stage (create_async_endpoint m q) = Some (method_stage m)"
| "documented_stage ping_endpoint = None"
| "documented_stage (Ext_endpoint x) = None"

text \<open>The stages of the routes of a table that serve a client method, in table order.\<close>

definition stages :: "route list \<Rightarrow> nat list" where
  "stages table = concat (map (\<lambda>r. case documented_stage (endpoint r) of
                                      Some n \<Rightarrow> [n] | None \<Rightarrow> []) table)"

section \<open>Example configurations\<close>

text \<open>
  A \<open>StacApi\<close> over a fresh application and a fresh router, without extensions and
  without route dependencies, with response models switched on; the other examples vary
  it.
\<close>

definition example_settings :: api_settings where
  "example_settings =
     \<lparr>stac_fastapi_title = ''stac-fastapi'', stac_fastapi_description = ''stac-fastapi'',
      stac_fastapi_version = ''0.1'', enable_response_models = True,
      openapi_url = ''/api'', docs_url = ''/api.html'', settings_default_includes = {}\<rparr>"

definition plain_api :: stac_api where
  "plain_api =
     \<lparr>settings = example_settings,
      client = \<lparr>client_extensions = [], client_stac_version = [], client_title = [],
                client_description = []\<rparr>,
      extensions = [],
      exceptions = Map.empty,
      app = \<lparr>routes = [], app_dependencies = [], app_tags = [],
             state_settings = None, state_router_prefix = None,
             exception_handlers = Map.empty, user_middleware = [],
             openapi_customized = False\<rparr>,
      router = \<lparr>router_prefix = [], router_dependencies = [], router_tags = [],
                router_routes = []\<rparr>,
      title = ''stac-fastapi'', api_version = ''0.1'', stac_version = ''1.0.0'',
      description = ''stac-fastapi'',
      search_get_request_model = Request BaseSearchGetRequest,
      search_post_request_model = Request BaseSearchPostRequest,
      search_catalog_get_request_model = Request BaseCatalogSearchGetRequest,
      search_catalog_post_request_model = Request CatalogSearchPostRequest,
      pagination_extension = TokenPaginationExtension,
      api_response_class = JSONResponse,
      middlewares = [BrotliMiddleware, CORSMiddleware, ProxyHeaderMiddleware],
      route_dependencies = [],
      collections_get_request_model = Request EmptyRequest,
      collections_post_request_model = Request BaseModel,
      Settings_singleton = None\<rparr>"

definition no_models_api :: stac_api where
  "no_models_api = plain_api\<lparr>settings := example_settings\<lparr>enable_response_models := False\<rparr>\<rparr>"

definition plain_extension :: extension where
  "plain_extension =
     \<lparr>ext_classes = [], truthy = True, GET = None, POST = None, conformance_classes = [],
      default_includes = {}, ext_routes = []\<rparr>"

definition fields_ext1 :: extension where
  "fields_ext1 = plain_extension\<lparr>ext_classes := [FieldsExtension],
                                  default_includes := {''id'', ''type''}\<rparr>"

definition fields_ext2 :: extension where
  "fields_ext2 = plain_extension\<lparr>ext_classes := [Ext_class ''MyFields'', FieldsExtension],
                                  default_includes := {''geometry''}\<rparr>"

definition token_pagination_ext :: extension where
  "token_pagination_ext =
     plain_extension\<lparr>ext_classes := [TokenPaginationExtension],
                     GET := Some (Request_class ''GETTokenPagination''),
                     POST := Some (Request_class ''POSTTokenPagination'')\<rparr>"

definition collection_search_ext :: extension where
  "collection_search_ext = plain_extension\<lparr>ext_classes := [CollectionSearchExtension]\<rparr>"

text \<open>
  Instances of subclasses of \<open>FieldsExtension\<close> and \<open>CollectionSearchExtension\<close> whose
  \<open>__bool__\<close> returns \<open>False\<close>.
\<close>

definition falsy_fields_ext :: extension where
  "falsy_fields_ext =
     plain_extension\<lparr>ext_classes := [Ext_class ''QuietFields'', FieldsExtension],
                     truthy := False, default_includes := {''id''}\<rparr>"

definition falsy_collection_search_ext :: extension where
  "falsy_collection_search_ext =
     plain_extension\<lparr>ext_classes := [Ext_class ''QuietCollectionSearch'',
                                     CollectionSearchExtension],
                     truthy := False\<rparr>"

definition falsy_api :: stac_api where
  "falsy_api = plain_api\<lparr>extensions := [falsy_fields_ext, falsy_collection_search_ext]\<rparr>"

text \<open>
  The application as \<open>StacApi\<close> builds it by default: \<open>FastAPI(openapi_url=...,
  docs_url=..., redoc_url=None)\<close> comes with the routes of the OpenAPI document, the
  documentation page and its OAuth2 redirect, each for \<open>GET\<close> and \<open>HEAD\<close>. The second
  application also has a dependency of its own.
\<close>

definition docs_route :: "string \<Rightarrow> string \<Rightarrow> route" where
  "docs_route n p =
     \<lparr>name = n, path = p, response_model = None, response_class = JSONResponse,
      response_model_exclude_unset = False, response_model_exclude_none = False,
      methods = [''GET'', ''HEAD''], endpoint = Ext_endpoint n, dependencies = [],
      tags = []\<rparr>"

definition default_app_routes :: "route list" where
  "default_app_routes =
     [docs_route ''openapi'' ''/api'', docs_route ''swagger_ui_html'' ''/api.html'',
      docs_route ''swagger_ui_redirect'' ''/docs/oauth2-redirect'']"

definition constructed_api :: stac_api where
  "constructed_api = plain_api\<lparr>app := (app plain_api)\<lparr>routes := default_app_routes\<rparr>\<rparr>"

definition app_guard_api :: stac_api where
  "app_guard_api =
     plain_api\<lparr>app := (app plain_api)\<lparr>routes := default_app_routes,
                                      app_dependencies := [Depends ''api_key'']\<rparr>\<rparr>"

text \<open>An extension whose hook registers a second handler for \<open>GET /search\<close>.\<close>

definition second_search_route :: route where
  "second_search_route =
     \<lparr>name = ''Second Search'', path = ''/search'', response_model = None,
      response_class = JSONResponse, response_model_exclude_unset = False,
      response_model_exclude_none = False, methods = [''GET''],
      endpoint = Ext_endpoint ''second_search'', dependencies = [Depends ''api_key''],
      tags = []\<rparr>"

definition second_search_ext :: extension where
  "second_search_ext =
     plain_extension\<lparr>ext_classes := [Ext_class ''SecondSearch''],
                     ext_routes := [second_search_route]\<rparr>"

definition duplicate_api :: stac_api where
  "duplicate_api = plain_api\<lparr>extensions := [second_search_ext]\<rparr>"

definition two_fields_api :: stac_api where
  "two_fields_api = plain_api\<lparr>extensions := [token_pagination_ext, fields_ext1, fields_ext2]\<rparr>"

definition collection_search_api :: stac_api where
  "collection_search_api = plain_api\<lparr>extensions := [collection_search_ext]\<rparr>"

text \<open>Route dependencies: two overlays on \<open>GET /search\<close>, and one on the health check.\<close>

definition search_scope :: scope where
  "search_scope = \<lparr>scope_path = ''/search'', scope_method = ''GET''\<rparr>"

definition ping_scope :: scope where
  "ping_scope = \<lparr>scope_path = ''/_mgmt/ping'', scope_method = ''GET''\<rparr>"

definition overlay_api :: stac_api where
  "overlay_api =
     duplicate_api\<lparr>route_dependencies :=
       [([search_scope], [Depends ''oauth2_scheme'']),
        ([\<lparr>scope_path = ''/nowhere'', scope_method = ''GET''\<rparr>], [Depends ''unused'']),
        ([search_scope], [Depends ''rate_limit'', Depends ''audit''])]\<rparr>"

definition guarded_ping_api :: stac_api where
  "guarded_ping_api =
     plain_api\<lparr>route_dependencies := [([ping_scope], [Depends ''oauth2_scheme''])]\<rparr>"

text \<open>Parameters of a request: exact path matching, guards, handler results.\<close>

definition exact_match :: "string \<Rightarrow> string \<Rightarrow> bool" where
  "exact_match template url = (template = url)"

definition no_credentials :: "depends \<Rightarrow> bool" where
  "no_credentials d = (d \<noteq> Depends ''oauth2_scheme'')"

definition empty_result :: "endpoint \<Rightarrow> (string \<times> string) list" where
  "empty_result e = []"

section \<open>Auxiliary facts\<close>

lemmas register_defs =
  register_landing_page_def register_conformance_classes_def register_get_item_def
  register_post_global_search_def register_get_global_search_def register_post_search_def
  register_get_search_def register_get_collections_def register_get_catalogs_def
  register_get_catalog_collections_def register_get_collection_def register_get_catalog_def
  register_get_item_collection_def

lemma get_extension_router [simp]: "get_extension (self\<lparr>router := r\<rparr>) c = get_extension self c"
  by (simp add: get_extension_def)

lemma register_core_unfold:
  "register_core self =
     register_get_catalog_collections (register_get_item_collection (register_get_catalog
       (register_get_collection (register_get_catalogs (register_get_collections
         (register_get_search (register_post_search (register_get_global_search
           (register_post_global_search (register_get_item (register_conformance_classes
             (register_landing_page self))))))))))))"
  by (simp only: register_core_def Let_def)

lemma register_core_frame:
  "register_core self =
     self\<lparr>router := (router self)\<lparr>router_routes :=
       router_routes (router self) @ registered_by register_core self\<rparr>\<rparr>"
  by (simp add: registered_by_def register_core_unfold register_defs add_api_route_def Let_def)

lemma foldl_register:
  "foldl (\<lambda>self ext. self\<lparr>app := register ext (app self)\<rparr>) s exts =
     s\<lparr>app := (app s)\<lparr>routes := routes (app s) @ concat (map ext_routes exts)\<rparr>\<rparr>"
  by (induction exts arbitrary: s) (simp_all add: register_def)

lemma foldl_add_middleware:
  "foldl (\<lambda>self m. self\<lparr>app := add_middleware (app self) m\<rparr>) s ms =
     s\<lparr>app := (app s)\<lparr>user_middleware := rev ms @ user_middleware (app s)\<rparr>\<rparr>"
  by (induction ms arbitrary: s) (simp_all add: add_middleware_def)

lemma foldl_add_route_dependencies:
  "foldl (\<lambda>self (scopes, deps). add_route_dependencies self scopes deps) s overlays =
     s\<lparr>app := (app s)\<lparr>routes := apply_overlays overlays (routes (app s))\<rparr>\<rparr>"
  by (induction overlays arbitrary: s)
     (simp_all add: add_route_dependencies_def apply_overlays_def split: prod.splits)

lemma registered_core_cong:
  "router s = router s' \<Longrightarrow> enable_response_models (settings s) = enable_response_models (settings s') \<Longrightarrow> extensions s = extensions s' \<Longrightarrow>
   api_response_class s = api_response_class s' \<Longrightarrow>
   search_get_request_model s = search_get_request_model s' \<Longrightarrow>
   search_post_request_model s = search_post_request_model s' \<Longrightarrow>
   search_catalog_get_request_model s = search_catalog_get_request_model s' \<Longrightarrow>
   search_catalog_post_request_model s = search_catalog_post_request_model s' \<Longrightarrow>
   collections_get_request_model s = collections_get_request_model s' \<Longrightarrow>
   pagination_extension s = pagination_extension s' \<Longrightarrow>
   registered_by register_core s = registered_by register_core s'"
  by (simp add: registered_by_def register_core_unfold register_defs add_api_route_def Let_def get_extension_def)


lemma registered_core_client [simp]:
  "registered_by register_core (s\<lparr>client := c\<rparr>) = registered_by register_core s"
  by (rule registered_core_cong) simp_all

lemma registered_core_singleton [simp]:
  "registered_by register_core (s\<lparr>Settings_singleton := c\<rparr>) = registered_by register_core s"
  by (rule registered_core_cong) simp_all

lemma registered_core_app [simp]:
  "registered_by register_core (s\<lparr>app := c\<rparr>) = registered_by register_core s"
  by (rule registered_core_cong) simp_all

lemma registered_core_includes [simp]:
  "enable_response_models st = enable_response_models (settings s) \<Longrightarrow>
   registered_by register_core (s\<lparr>settings := st\<rparr>) = registered_by register_core s"
  by (rule registered_core_cong) simp_all

lemma included_state_settings [simp]:
  "included (a\<lparr>state_settings := x\<rparr>) tgs = included a tgs"
  by (rule ext) (simp add: included_def)

lemma attrs_post_init_eq:
  "attrs_post_init self =
     Inr (self\<lparr>
       client := (client self)\<lparr>client_extensions := extensions self,
                                client_stac_version := stac_version self,
                                client_title := title self,
                                client_description := description self\<rparr>,
       settings := injected_settings self,
       Settings_singleton := Some (injected_settings self),
       router := (router self)\<lparr>router_routes :=
         router_routes (router self) @ registered_by register_core self\<rparr>,
       app := (app self)\<lparr>
         routes := apply_overlays (route_dependencies self) (table_before_overlays self),
         state_settings := Some (injected_settings self),
         state_router_prefix := Some (router_prefix (router self)),
         exception_handlers := exception_handlers (app self) ++ exceptions self,
         user_middleware := rev (middlewares self) @ user_middleware (app self),
         openapi_customized := True\<rparr>\<rparr>)"
proof (cases "get_extension self FieldsExtension")
  case None
  then show ?thesis
    by (simp add: attrs_post_init_def Let_def injected_settings_def get_extension_def
        register_core_frame foldl_register foldl_add_middleware foldl_add_route_dependencies
        add_health_check_def include_router_def add_api_route_def api_route_def
        add_exception_handlers_def table_before_overlays_def health_check_route_def
        included_def)
next
  case (Some ext)
  then show ?thesis
    by (simp add: attrs_post_init_def Let_def injected_settings_def get_extension_def
        register_core_frame foldl_register foldl_add_middleware foldl_add_route_dependencies
        add_health_check_def include_router_def add_api_route_def api_route_def
        add_exception_handlers_def table_before_overlays_def health_check_route_def
        included_def)
qed


lemma assembled_eq:
  "assembled self =
     self\<lparr>
       client := (client self)\<lparr>client_extensions := extensions self,
                                client_stac_version := stac_version self,
                                client_title := title self,
                                client_description := description self\<rparr>,
       settings := injected_settings self,
       Settings_singleton := Some (injected_settings self),
       router := (router self)\<lparr>router_routes :=
         router_routes (router self) @ registered_by register_core self\<rparr>,
       app := (app self)\<lparr>
         routes := apply_overlays (route_dependencies self) (table_before_overlays self),
         state_settings := Some (injected_settings self),
         state_router_prefix := Some (router_prefix (router self)),
         exception_handlers := exception_handlers (app self) ++ exceptions self,
         user_middleware := rev (middlewares self) @ user_middleware (app self),
         openapi_customized := True\<rparr>\<rparr>"
  unfolding assembled_def attrs_post_init_eq by simp

lemma attrs_post_init_assembled: "attrs_post_init self = Inr (assembled self)"
  unfolding assembled_def attrs_post_init_eq by simp

lemma assembled_routes:
  "routes (app (assembled self)) =
     apply_overlays (route_dependencies self) (table_before_overlays self)"
  by (simp add: assembled_eq)

lemma scope_matches_dependencies [simp]:
  "scope_matches (r\<lparr>dependencies := ds\<rparr>) = scope_matches r"
  by (rule ext) (simp add: scope_matches_def)

lemma scope_matches_included [simp]: "scope_matches (included a tgs r) = scope_matches r"
  by (rule ext) (simp add: scope_matches_def included_def)

lemma included_fields [simp]:
  "name (included a tgs r) = name r" "path (included a tgs r) = path r"
  "methods (included a tgs r) = methods r" "endpoint (included a tgs r) = endpoint r"
  "response_model (included a tgs r) = response_model r"
  "dependencies (included a tgs r) = app_dependencies a @ dependencies r"
  by (simp_all add: included_def)

lemma apply_scopes_eq:
  "apply_scopes r scopes deps =
     r\<lparr>dependencies := dependencies r
        @ concat (replicate (length (filter (scope_matches r) scopes)) deps)\<rparr>"
proof (induction scopes arbitrary: r)
  case Nil
  show ?case by simp
next
  case (Cons s ss)
  show ?case by (simp add: Cons.IH)
qed

lemma overlay_dependencies_update [simp]:
  "overlay_dependencies ovs (r\<lparr>dependencies := ds\<rparr>) = overlay_dependencies ovs r"
  by (simp add: overlay_dependencies_def)

lemma overlay_dependencies_included [simp]:
  "overlay_dependencies ovs (included a tgs r) = overlay_dependencies ovs r"
  by (simp add: overlay_dependencies_def)

lemma overlay_dependencies_Cons:
  "overlay_dependencies ((scopes, deps) # ovs) r =
     concat (replicate (length (filter (scope_matches r) scopes)) deps)
     @ overlay_dependencies ovs r"
  by (simp add: overlay_dependencies_def)

lemma apply_overlays_eq:
  "apply_overlays ovs table =
     map (\<lambda>r. r\<lparr>dependencies := dependencies r @ overlay_dependencies ovs r\<rparr>) table"
proof (induction ovs arbitrary: table)
  case Nil
  show ?case by (simp add: apply_overlays_def overlay_dependencies_def)
next
  case (Cons ov ovs)
  obtain scopes deps where ov: "ov = (scopes, deps)" by (cases ov)
  have "apply_overlays (ov # ovs) table =
          apply_overlays ovs (routes_add_route_dependencies table scopes deps)"
    by (simp add: apply_overlays_def ov)
  also have "\<dots> = map (\<lambda>r. r\<lparr>dependencies := dependencies r @ overlay_dependencies ovs r\<rparr>)
                    (routes_add_route_dependencies table scopes deps)"
    by (rule Cons.IH)
  also have "\<dots> = map (\<lambda>r. r\<lparr>dependencies := dependencies r @ overlay_dependencies (ov # ovs) r\<rparr>)
                    table"
    by (simp add: routes_add_route_dependencies_def apply_scopes_eq ov overlay_dependencies_Cons)
  finally show ?case .
qed

lemma core_keys:
  "map (\<lambda>r. (name r, methods r, path r)) (registered_by register_core self) =
     map (\<lambda>(n, m, p). (n, [m], router_prefix (router self) @ p))
       [(''Landing Page'', ''GET'', ''/''),
        (''Conformance Classes'', ''GET'', ''/conformance''),
        (''Get Item'', ''GET'',
           ''/catalogs/{catalog_id}/collections/{collection_id}/items/{item_id}''),
        (''Search'', ''POST'', ''/search''),
        (''Search'', ''GET'', ''/search''),
        (''Catalog Item Search'', ''POST'', ''/catalogs/{catalog_id}/search''),
        (''Catalog Item Search'', ''GET'', ''/catalogs/{catalog_id}/search''),
        (''Get Collections'', ''GET'', ''/collections''),
        (''Get Catalogs'', ''GET'', ''/catalogs''),
        (''Get Collection'', ''GET'', ''/catalogs/{catalog_id}/collections/{collection_id}''),
        (''Get Catalog'', ''GET'', ''/catalogs/{catalog_id}''),
        (''Get ItemCollection'', ''GET'',
           ''/catalogs/{catalog_id}/collections/{collection_id}/items''),
        (''Get CatalogCollections'', ''GET'', ''/catalogs/{catalog_id}/collections'')]"
  by (simp add: registered_by_def register_core_unfold register_defs add_api_route_def
      api_route_def Let_def)

lemma core_response_models:
  "map response_model (registered_by register_core self) =
     (if enable_response_models (settings self)
      then [Some LandingPage, Some ConformanceClasses, Some Item,
            (if \<not> truth_value (get_extension self FieldsExtension) then Some ItemCollection
             else None),
            (if \<not> truth_value (get_extension self FieldsExtension) then Some ItemCollection
             else None),
            (if \<not> truth_value (get_extension self FieldsExtension) then Some ItemCollection
             else None),
            (if \<not> truth_value (get_extension self FieldsExtension) then Some ItemCollection
             else None),
            (if \<not> truth_value (get_extension self CollectionSearchExtension)
             then Some Collections else None),
            Some Catalogs, Some Collection, Some Catalog, Some ItemCollection,
            Some Collections]
      else replicate 13 None)"
  by (simp add: registered_by_def register_core_unfold register_defs add_api_route_def
      api_route_def Let_def numeral_eq_Suc)

lemma core_endpoints:
  "map endpoint (registered_by register_core self) =
     [create_async_endpoint landing_page (Request EmptyRequest),
      create_async_endpoint conformance (Request EmptyRequest),
      create_async_endpoint get_item (Request ItemUri),
      create_async_endpoint post_global_search (search_post_request_model self),
      create_async_endpoint get_global_search (search_get_request_model self),
      create_async_endpoint post_search (search_catalog_post_request_model self),
      create_async_endpoint get_search (search_catalog_get_request_model self),
      create_async_endpoint all_collections (collections_get_request_model self),
      create_async_endpoint all_catalogs (Request EmptyRequest),
      create_async_endpoint get_collection (Request CollectionUri),
      create_async_endpoint get_catalog (Request CatalogUri),
      create_async_endpoint item_collection
        (create_request_model ''ItemCollectionURI'' ItemCollectionUri
           (case get_extension self (pagination_extension self) of
              Some ext \<Rightarrow> Some [GET ext] | None \<Rightarrow> None)),
      create_async_endpoint get_catalog_collections (Request CatalogUri)]"
  by (simp add: registered_by_def register_core_unfold register_defs add_api_route_def
      api_route_def Let_def)

lemma core_length: "length (registered_by register_core self) = 13"
  using arg_cong [OF core_keys, of length] by simp

lemma get_extension_loop_None:
  "get_extension_loop exts c = None \<longleftrightarrow> (\<forall>e\<in>set exts. \<not> isinstance e c)"
  by (induction exts) auto

lemma get_extension_loop_find:
  "get_extension_loop exts c = find (\<lambda>e. isinstance e c) exts"
  by (induction exts) auto

lemma get_extension_None:
  "get_extension self c = None \<longleftrightarrow> (\<forall>e\<in>set (extensions self). \<not> isinstance e c)"
  by (simp add: get_extension_def get_extension_loop_None)

lemma assembled_table:
  "routes (app (assembled self)) =
     map (\<lambda>r. r\<lparr>dependencies := dependencies r @ overlay_dependencies (route_dependencies self) r\<rparr>)
       (table_before_overlays self)"
  by (simp add: assembled_routes apply_overlays_eq)

lemma assembled_core_segment:
  "take 13 (drop (core_offset self) (routes (app (assembled self)))) =
     map (\<lambda>r. r\<lparr>dependencies := dependencies r @ overlay_dependencies (route_dependencies self) r\<rparr>)
       (map (included (app self) []) (registered_by register_core self))"
  by (simp add: assembled_table table_before_overlays_def core_offset_def core_length
      drop_map take_map)

lemma assembled_core_nth:
  assumes "i < 13"
  shows "routes (app (assembled self)) ! (core_offset self + i) =
     (included (app self) [] (registered_by register_core self ! i))\<lparr>dependencies :=
        app_dependencies (app self) @ dependencies (registered_by register_core self ! i)
        @ overlay_dependencies (route_dependencies self) (registered_by register_core self ! i)\<rparr>"
proof -
  let ?t = "routes (app (assembled self))"
  have len: "core_offset self + 13 < length ?t"
    by (simp add: assembled_table table_before_overlays_def core_offset_def core_length)
  have "?t ! (core_offset self + i) = take 13 (drop (core_offset self) ?t) ! i"
    using assms len by simp
  then show ?thesis
    using assms by (simp add: assembled_core_segment core_length)
qed

lemma core_declared:
  "map declared (registered_by register_core self) =
     map (\<lambda>(m, p, rm). ([m], router_prefix (router self) @ p,
                        if enable_response_models (settings self) then rm else None))
       [(''GET'', ''/'', Some LandingPage),
        (''GET'', ''/conformance'', Some ConformanceClasses),
        (''GET'', ''/catalogs/{catalog_id}/collections/{collection_id}/items/{item_id}'',
           Some Item),
        (''POST'', ''/search'',
           if \<not> truth_value (get_extension self FieldsExtension) then Some ItemCollection
           else None),
        (''GET'', ''/search'',
           if \<not> truth_value (get_extension self FieldsExtension) then Some ItemCollection
           else None),
        (''POST'', ''/catalogs/{catalog_id}/search'',
           if \<not> truth_value (get_extension self FieldsExtension) then Some ItemCollection
           else None),
        (''GET'', ''/catalogs/{catalog_id}/search'',
           if \<not> truth_value (get_extension self FieldsExtension) then Some ItemCollection
           else None),
        (''GET'', ''/collections'',
           if \<not> truth_value (get_extension self CollectionSearchExtension)
           then Some Collections else None),
        (''GET'', ''/catalogs'', Some Catalogs),
        (''GET'', ''/catalogs/{catalog_id}/collections/{collection_id}'', Some Collection),
        (''GET'', ''/catalogs/{catalog_id}'', Some Catalog),
        (''GET'', ''/catalogs/{catalog_id}/collections/{collection_id}/items'',
           Some ItemCollection),
        (''GET'', ''/catalogs/{catalog_id}/collections'', Some Collections)]"
  by (simp add: registered_by_def register_core_unfold register_defs add_api_route_def
      api_route_def Let_def declared_def)

lemma assembled_core_declared:
  assumes "i < 13"
  shows "declared (routes (app (assembled self)) ! (core_offset self + i)) =
           declared (registered_by register_core self ! i)"
  using assms by (simp add: assembled_core_nth declared_def included_def)

lemma assembled_last:
  "routes (app (assembled self)) =
     butlast (routes (app (assembled self)))
     @ [(included (app self) [''Liveliness/Readiness'']
           (health_check_route (router_prefix (router self))))\<lparr>dependencies :=
          app_dependencies (app self)
          @ overlay_dependencies (route_dependencies self)
              (health_check_route (router_prefix (router self)))\<rparr>]"
  by (simp add: assembled_table table_before_overlays_def butlast_append health_check_route_def)

lemma core_nth_endpoint:
  "i < 13 \<Longrightarrow> endpoint (routes (app (assembled self)) ! (core_offset self + i)) =
     map endpoint (registered_by register_core self) ! i"
  by (simp add: assembled_core_nth core_length)

lemma core_nth_declared:
  "i < 13 \<Longrightarrow> declared (routes (app (assembled self)) ! (core_offset self + i)) =
     map declared (registered_by register_core self) ! i"
  by (simp add: assembled_core_declared core_length)

lemma plain_api_fields:
  "extensions plain_api = []" "router_prefix (router plain_api) = []"
  "router_routes (router plain_api) = []" "routes (app plain_api) = []"
  "route_dependencies plain_api = []" "enable_response_models (settings plain_api)"
  "pagination_extension plain_api = TokenPaginationExtension"
  "core_offset plain_api = 0"
  by (simp_all add: plain_api_def example_settings_def core_offset_def)

lemma route_keys_Nil: "route_keys [] = []"
  by (simp add: route_keys_def)

lemma route_keys_append: "route_keys (xs @ ys) = route_keys xs @ route_keys ys"
  by (simp add: route_keys_def)

lemma route_keys_dependencies:
  "route_keys (map (\<lambda>r. r\<lparr>dependencies := f r\<rparr>) table) = route_keys table"
  by (simp add: route_keys_def comp_def)

lemma route_keys_included: "route_keys (map (included a tgs) table) = route_keys table"
  by (simp add: route_keys_def comp_def)

lemma route_keys_core:
  "route_keys (registered_by register_core self) =
     map (\<lambda>(p, m). (router_prefix (router self) @ p, m))
       [(''/'', ''GET''), (''/conformance'', ''GET''),
        (''/catalogs/{catalog_id}/collections/{collection_id}/items/{item_id}'', ''GET''),
        (''/search'', ''POST''), (''/search'', ''GET''),
        (''/catalogs/{catalog_id}/search'', ''POST''),
        (''/catalogs/{catalog_id}/search'', ''GET''),
        (''/collections'', ''GET''), (''/catalogs'', ''GET''),
        (''/catalogs/{catalog_id}/collections/{collection_id}'', ''GET''),
        (''/catalogs/{catalog_id}'', ''GET''),
        (''/catalogs/{catalog_id}/collections/{collection_id}/items'', ''GET''),
        (''/catalogs/{catalog_id}/collections'', ''GET'')]"
proof -
  have "route_keys (registered_by register_core self) =
          concat (map (\<lambda>(n, ms, p). map (\<lambda>m. (p, m)) ms)
            (map (\<lambda>r. (name r, methods r, path r)) (registered_by register_core self)))"
    by (simp add: route_keys_def comp_def)
  then show ?thesis
    by (simp add: core_keys)
qed

lemma route_keys_assembled:
  "route_keys (routes (app (assembled self))) =
     route_keys (routes (app self)) @ route_keys (router_routes (router self))
     @ route_keys (registered_by register_core self)
     @ route_keys (concat (map ext_routes (extensions self)))
     @ [(router_prefix (router self) @ ''/_mgmt/ping'', ''GET'')]"
proof -
  have "route_keys (routes (app (assembled self))) = route_keys (table_before_overlays self)"
    unfolding assembled_table by (rule route_keys_dependencies)
  also have "\<dots> = route_keys (routes (app self))
     @ route_keys (map (included (app self) [])
         (router_routes (router self) @ registered_by register_core self))
     @ route_keys (concat (map ext_routes (extensions self)))
     @ route_keys (map (included (app self) [''Liveliness/Readiness''])
         [health_check_route (router_prefix (router self))])"
    by (simp add: table_before_overlays_def route_keys_append)
  also have "\<dots> = route_keys (routes (app self)) @ route_keys (router_routes (router self))
     @ route_keys (registered_by register_core self)
     @ route_keys (concat (map ext_routes (extensions self)))
     @ route_keys [health_check_route (router_prefix (router self))]"
    by (simp only: route_keys_included route_keys_append append_assoc)
  finally show ?thesis
    by (simp add: route_keys_def health_check_route_def)
qed

lemma core_keys_distinct:
  "distinct (map (\<lambda>(p, m). (prefix @ p, m))
       [(''/'', ''GET''), (''/conformance'', ''GET''),
        (''/catalogs/{catalog_id}/collections/{collection_id}/items/{item_id}'', ''GET''),
        (''/search'', ''POST''), (''/search'', ''GET''),
        (''/catalogs/{catalog_id}/search'', ''POST''),
        (''/catalogs/{catalog_id}/search'', ''GET''),
        (''/collections'', ''GET''), (''/catalogs'', ''GET''),
        (''/catalogs/{catalog_id}/collections/{collection_id}'', ''GET''),
        (''/catalogs/{catalog_id}'', ''GET''),
        (''/catalogs/{catalog_id}/collections/{collection_id}/items'', ''GET''),
        (''/catalogs/{catalog_id}/collections'', ''GET'')]
     @ [(prefix @ ''/_mgmt/ping'', ''GET'')])"
  by simp

lemma assembled_butlast:
  "butlast (routes (app (assembled self))) =
     map (\<lambda>r. r\<lparr>dependencies := dependencies r @ overlay_dependencies (route_dependencies self) r\<rparr>)
       (routes (app self)
        @ map (included (app self) [])
            (router_routes (router self) @ registered_by register_core self)
        @ concat (map ext_routes (extensions self)))"
  by (simp add: assembled_table table_before_overlays_def butlast_append map_butlast [symmetric])

lemma core_paths:
  "map path (registered_by register_core self) =
     map ((@) (router_prefix (router self)))
       [''/'', ''/conformance'',
        ''/catalogs/{catalog_id}/collections/{collection_id}/items/{item_id}'',
        ''/search'', ''/search'', ''/catalogs/{catalog_id}/search'',
        ''/catalogs/{catalog_id}/search'', ''/collections'', ''/catalogs'',
        ''/catalogs/{catalog_id}/collections/{collection_id}'', ''/catalogs/{catalog_id}'',
        ''/catalogs/{catalog_id}/collections/{collection_id}/items'',
        ''/catalogs/{catalog_id}/collections'']"
proof -
  have "map path (registered_by register_core self) =
          map (\<lambda>(n, m, p). p)
            (map (\<lambda>r. (name r, methods r, path r)) (registered_by register_core self))"
    by (simp add: comp_def)
  then show ?thesis
    by (simp add: core_keys)
qed

lemma find_snoc:
  "find P (xs @ [x]) = (case find P xs of None \<Rightarrow> (if P x then Some x else None) | Some y \<Rightarrow> Some y)"
  by (induction xs) simp_all

lemma serve_last_route:
  assumes "\<forall>r\<in>set (butlast table). \<not> (matches (path r) url \<and> m \<in> set (methods r))"
    and "table = butlast table @ [h]"
    and "matches (path h) url" and "m \<in> set (methods h)"
  shows "serve matches passes result table m url =
     (case find (\<lambda>d. \<not> passes d) (dependencies h) of
        Some d \<Rightarrow> Refused d
      | None \<Rightarrow> Returned (call_endpoint result (endpoint h)))"
proof -
  let ?P = "\<lambda>r. matches (path r) url \<and> m \<in> set (methods r)"
  have none: "find ?P (butlast table) = None"
    using assms(1) by (simp add: find_None_iff)
  have "find ?P table = find ?P (butlast table @ [h])"
    using assms(2) by simp
  also have "\<dots> = Some h"
    using none assms(3,4) by (simp add: find_snoc)
  finally show ?thesis
    by (simp add: serve_def)
qed

lemma plain_core_not_ping:
  assumes "router_prefix (router self) = []"
  shows "\<forall>r\<in>set (registered_by register_core self). path r \<noteq> ''/_mgmt/ping''"
proof -
  have "\<forall>p\<in>set (map path (registered_by register_core self)). p \<noteq> ''/_mgmt/ping''"
    unfolding core_paths assms by simp
  then show ?thesis
    by simp
qed

lemma distinct_around:
  assumes "distinct (c @ [h])"
  shows "distinct (a @ b @ c @ d @ [h]) \<longleftrightarrow>
           distinct (a @ b @ d) \<and> set (a @ b @ d) \<inter> set (c @ [h]) = {}"
  using assms by auto

lemma truth_value_get_extension:
  "truth_value (get_extension self c) \<longleftrightarrow>
     (\<exists>i<length (extensions self). isinstance (extensions self ! i) c \<and>
        truthy (extensions self ! i) \<and> (\<forall>j<i. \<not> isinstance (extensions self ! j) c))"
proof (cases "get_extension self c")
  case None
  then have "\<forall>e\<in>set (extensions self). \<not> isinstance e c"
    by (simp add: get_extension_None)
  then show ?thesis
    using None by auto
next
  case (Some ext)
  then obtain i where i: "i < length (extensions self)" "extensions self ! i = ext"
    "isinstance ext c" "\<forall>j<i. \<not> isinstance (extensions self ! j) c"
    unfolding get_extension_def get_extension_loop_find find_Some_iff by auto
  show ?thesis
  proof
    assume "truth_value (get_extension self c)"
    then have "truthy ext"
      using Some by simp
    then show "\<exists>i<length (extensions self). isinstance (extensions self ! i) c \<and>
        truthy (extensions self ! i) \<and> (\<forall>j<i. \<not> isinstance (extensions self ! j) c)"
      using i by auto
  next
    assume "\<exists>i<length (extensions self). isinstance (extensions self ! i) c \<and>
        truthy (extensions self ! i) \<and> (\<forall>j<i. \<not> isinstance (extensions self ! j) c)"
    then obtain k where k: "k < length (extensions self)" "isinstance (extensions self ! k) c"
      "truthy (extensions self ! k)" "\<forall>j<k. \<not> isinstance (extensions self ! j) c"
      by auto
    have "k = i"
      using i k by (metis linorder_neqE_nat)
    then show "truth_value (get_extension self c)"
      using Some i k by simp
  qed
qed

lemma core_stages:
  "stages (registered_by register_core self) = [0, 1, 2, 3, 3, 3, 3, 4, 4, 4, 4, 2, 4]"
proof -
  have "stages (registered_by register_core self) =
          concat (map (\<lambda>e. case documented_stage e of Some n \<Rightarrow> [n] | None \<Rightarrow> [])
            (map endpoint (registered_by register_core self)))"
    by (simp add: stages_def comp_def)
  then show ?thesis
    by (simp add: core_endpoints)
qed

lemma butlast_paths:
  "map (\<lambda>r. (path r, methods r)) (butlast (routes (app (assembled self)))) =
     map (\<lambda>r. (path r, methods r)) (routes (app self))
     @ map (\<lambda>r. (path r, methods r)) (router_routes (router self))
     @ map (\<lambda>r. (path r, methods r)) (registered_by register_core self)
     @ map (\<lambda>r. (path r, methods r)) (concat (map ext_routes (extensions self)))"
  by (simp add: assembled_butlast comp_def)

lemma not_matched_before:
  assumes "\<forall>(p, ms)\<in>set (map (\<lambda>r. (path r, methods r)) table). \<not> (matches p url \<and> m \<in> set ms)"
  shows "\<forall>r\<in>set table. \<not> (matches (path r) url \<and> m \<in> set (methods r))"
  using assms by auto

section \<open>Extension lookup by type\<close>

text \<open>
  C4. \<open>get_extension\<close> returns the first element of the extensions list that is an
  instance of the requested class, and \<open>None\<close> exactly when the list has no such
  element. The registration methods read the extensions list through \<open>get_extension\<close>
  only, for the classes \<open>FieldsExtension\<close>, \<open>CollectionSearchExtension\<close> and the
  configured pagination class: any other extensions list with the same three lookup
  results makes \<open>register_core\<close> register the same routes, so no instance but the first
  of a class is ever used.
\<close>

theorem get_extension_first_instance:
  "(get_extension self c = None \<longleftrightarrow> (\<forall>e\<in>set (extensions self). \<not> isinstance e c)) \<and>
   (\<forall>ext. get_extension self c = Some ext \<longleftrightarrow>
      (\<exists>i<length (extensions self). extensions self ! i = ext \<and> isinstance ext c \<and>
         (\<forall>j<i. \<not> isinstance (extensions self ! j) c))) \<and>
   ((\<forall>t\<in>{FieldsExtension, CollectionSearchExtension, pagination_extension self}.
        get_extension (self\<lparr>extensions := exts\<rparr>) t = get_extension self t) \<longrightarrow>
    registered_by register_core (self\<lparr>extensions := exts\<rparr>) = registered_by register_core self)"
proof (intro conjI allI impI)
  show "get_extension self c = None \<longleftrightarrow> (\<forall>e\<in>set (extensions self). \<not> isinstance e c)"
    by (rule get_extension_None)
next
  fix ext
  show "get_extension self c = Some ext \<longleftrightarrow>
      (\<exists>i<length (extensions self). extensions self ! i = ext \<and> isinstance ext c \<and>
         (\<forall>j<i. \<not> isinstance (extensions self ! j) c))"
    unfolding get_extension_def get_extension_loop_find find_Some_iff by auto
next
  assume same: "\<forall>t\<in>{FieldsExtension, CollectionSearchExtension, pagination_extension self}.
        get_extension (self\<lparr>extensions := exts\<rparr>) t = get_extension self t"
  then have f: "get_extension (self\<lparr>extensions := exts\<rparr>) FieldsExtension
                  = get_extension self FieldsExtension"
    and c: "get_extension (self\<lparr>extensions := exts\<rparr>) CollectionSearchExtension
                  = get_extension self CollectionSearchExtension"
    and p: "get_extension (self\<lparr>extensions := exts\<rparr>) (pagination_extension self)
                  = get_extension self (pagination_extension self)"
    by simp_all
  show "registered_by register_core (self\<lparr>extensions := exts\<rparr>)
          = registered_by register_core self"
    by (simp add: registered_by_def register_core_unfold register_defs add_api_route_def
        Let_def f c p)
qed

theorem get_extension_first_instance_witness:
  "get_extension two_fields_api FieldsExtension = Some fields_ext1 \<and>
   get_extension two_fields_api CollectionSearchExtension = None \<and>
   registered_by register_core
     (two_fields_api\<lparr>extensions := [token_pagination_ext, fields_ext1]\<rparr>)
     = registered_by register_core two_fields_api"
proof -
  have lookups:
    "get_extension two_fields_api FieldsExtension = Some fields_ext1"
    "get_extension two_fields_api CollectionSearchExtension = None"
    "get_extension two_fields_api TokenPaginationExtension = Some token_pagination_ext"
    "get_extension (two_fields_api\<lparr>extensions := [token_pagination_ext, fields_ext1]\<rparr>)
       FieldsExtension = Some fields_ext1"
    "get_extension (two_fields_api\<lparr>extensions := [token_pagination_ext, fields_ext1]\<rparr>)
       CollectionSearchExtension = None"
    "get_extension (two_fields_api\<lparr>extensions := [token_pagination_ext, fields_ext1]\<rparr>)
       TokenPaginationExtension = Some token_pagination_ext"
    by (simp_all add: get_extension_def isinstance_def two_fields_api_def plain_api_def
        fields_ext1_def fields_ext2_def token_pagination_ext_def plain_extension_def)
  have pag: "pagination_extension two_fields_api = TokenPaginationExtension"
    by (simp add: two_fields_api_def plain_api_def)
  show ?thesis
    using get_extension_first_instance
      [of two_fields_api FieldsExtension "[token_pagination_ext, fields_ext1]"]
    by (simp add: lookups pag)
qed

section \<open>Order of the core routes\<close>

text \<open>
  C6, as the code has it. \<open>register_core\<close> leaves the routes already on the router in
  place and appends thirteen routes in this order: the landing page, the conformance
  classes, the route of one item (Get Item), the four search routes (POST and GET
  \<open>/search\<close>, POST and GET \<open>/catalogs/{catalog_id}/search\<close>), and then the collections
  listing, the catalogs listing, the route of one collection, the route of one catalog,
  the items listing of a collection (Get ItemCollection) and the collections listing of
  a catalog. Every path is preceded by the router's prefix. By documented stages this
  is 0, 1, 2, 3, 3, 3, 3, 4, 4, 4, 4, 2, 4: the items listing is registered after the
  search routes, among the collection and catalog routes.
\<close>

theorem register_core_order:
  "router_routes (router (register_core self)) =
     router_routes (router self) @ registered_by register_core self \<and>
   map (\<lambda>r. (name r, methods r, path r)) (registered_by register_core self) =
     [(''Landing Page'', [''GET''], router_prefix (router self) @ ''/''),
      (''Conformance Classes'', [''GET''], router_prefix (router self) @ ''/conformance''),
      (''Get Item'', [''GET''], router_prefix (router self)
         @ ''/catalogs/{catalog_id}/collections/{collection_id}/items/{item_id}''),
      (''Search'', [''POST''], router_prefix (router self) @ ''/search''),
      (''Search'', [''GET''], router_prefix (router self) @ ''/search''),
      (''Catalog Item Search'', [''POST''],
         router_prefix (router self) @ ''/catalogs/{catalog_id}/search''),
      (''Catalog Item Search'', [''GET''],
         router_prefix (router self) @ ''/catalogs/{catalog_id}/search''),
      (''Get Collections'', [''GET''], router_prefix (router self) @ ''/collections''),
      (''Get Catalogs'', [''GET''], router_prefix (router self) @ ''/catalogs''),
      (''Get Collection'', [''GET''], router_prefix (router self)
         @ ''/catalogs/{catalog_id}/collections/{collection_id}''),
      (''Get Catalog'', [''GET''], router_prefix (router self) @ ''/catalogs/{catalog_id}''),
      (''Get ItemCollection'', [''GET''], router_prefix (router self)
         @ ''/catalogs/{catalog_id}/collections/{collection_id}/items''),
      (''Get CatalogCollections'', [''GET''],
         router_prefix (router self) @ ''/catalogs/{catalog_id}/collections'')] \<and>
   stages (registered_by register_core self) = [0, 1, 2, 3, 3, 3, 3, 4, 4, 4, 4, 2, 4]"
proof (intro conjI)
  show "router_routes (router (register_core self)) =
          router_routes (router self) @ registered_by register_core self"
    using arg_cong [OF register_core_frame, of "\<lambda>s. router_routes (router s)" self]
    by simp
next
  show "stages (registered_by register_core self) = [0, 1, 2, 3, 3, 3, 3, 4, 4, 4, 4, 2, 4]"
    by (rule core_stages)
next
  show "map (\<lambda>r. (name r, methods r, path r)) (registered_by register_core self) =
     [(''Landing Page'', [''GET''], router_prefix (router self) @ ''/''),
      (''Conformance Classes'', [''GET''], router_prefix (router self) @ ''/conformance''),
      (''Get Item'', [''GET''], router_prefix (router self)
         @ ''/catalogs/{catalog_id}/collections/{collection_id}/items/{item_id}''),
      (''Search'', [''POST''], router_prefix (router self) @ ''/search''),
      (''Search'', [''GET''], router_prefix (router self) @ ''/search''),
      (''Catalog Item Search'', [''POST''],
         router_prefix (router self) @ ''/catalogs/{catalog_id}/search''),
      (''Catalog Item Search'', [''GET''],
         router_prefix (router self) @ ''/catalogs/{catalog_id}/search''),
      (''Get Collections'', [''GET''], router_prefix (router self) @ ''/collections''),
      (''Get Catalogs'', [''GET''], router_prefix (router self) @ ''/catalogs''),
      (''Get Collection'', [''GET''], router_prefix (router self)
         @ ''/catalogs/{catalog_id}/collections/{collection_id}''),
      (''Get Catalog'', [''GET''], router_prefix (router self) @ ''/catalogs/{catalog_id}''),
      (''Get ItemCollection'', [''GET''], router_prefix (router self)
         @ ''/catalogs/{catalog_id}/collections/{collection_id}/items''),
      (''Get CatalogCollections'', [''GET''],
         router_prefix (router self) @ ''/catalogs/{catalog_id}/collections'')]"
    by (simp add: core_keys)
qed

theorem register_core_order_witness:
  "map (\<lambda>r. (name r, methods r, path r)) (router_routes (router (register_core plain_api))) =
     [(''Landing Page'', [''GET''], ''/''),
      (''Conformance Classes'', [''GET''], ''/conformance''),
      (''Get Item'', [''GET''],
         ''/catalogs/{catalog_id}/collections/{collection_id}/items/{item_id}''),
      (''Search'', [''POST''], ''/search''),
      (''Search'', [''GET''], ''/search''),
      (''Catalog Item Search'', [''POST''], ''/catalogs/{catalog_id}/search''),
      (''Catalog Item Search'', [''GET''], ''/catalogs/{catalog_id}/search''),
      (''Get Collections'', [''GET''], ''/collections''),
      (''Get Catalogs'', [''GET''], ''/catalogs''),
      (''Get Collection'', [''GET''], ''/catalogs/{catalog_id}/collections/{collection_id}''),
      (''Get Catalog'', [''GET''], ''/catalogs/{catalog_id}''),
      (''Get ItemCollection'', [''GET''],
         ''/catalogs/{catalog_id}/collections/{collection_id}/items''),
      (''Get CatalogCollections'', [''GET''], ''/catalogs/{catalog_id}/collections'')]"
proof -
  have start: "router_routes (router plain_api) = []" "router_prefix (router plain_api) = []"
    by (simp_all add: plain_api_def)
  show ?thesis
    using register_core_order [of plain_api] by (simp add: start)
qed

text \<open>
  As stated the claim fails: the items listing of a collection, an item-level route, is
  the twelfth route that \<open>register_core\<close> registers, behind the four search routes
  (fourth to seventh), so the stages of the routes are not in the documented order.
\<close>

theorem register_core_order_counterexample:
  "map (\<lambda>r. (methods r, path r)) (router_routes (router (register_core plain_api))) ! 4 =
     ([''GET''], ''/search'') \<and>
   map (\<lambda>r. (methods r, path r)) (router_routes (router (register_core plain_api))) ! 11 =
     ([''GET''], ''/catalogs/{catalog_id}/collections/{collection_id}/items'') \<and>
   stages (router_routes (router (register_core plain_api))) =
     [0, 1, 2, 3, 3, 3, 3, 4, 4, 4, 4, 2, 4] \<and>
   \<not> sorted (stages (router_routes (router (register_core plain_api))))"
proof -
  have start: "router_routes (router plain_api) = []" "router_prefix (router plain_api) = []"
    by (simp_all add: plain_api_def)
  have all: "router_routes (router (register_core plain_api)) =
               registered_by register_core plain_api"
    using arg_cong [OF register_core_frame, of "\<lambda>s. router_routes (router s)" plain_api]
    by (simp add: start)
  have "map (\<lambda>r. (methods r, path r)) (registered_by register_core plain_api) =
          map (\<lambda>(n, m, p). (m, p))
            (map (\<lambda>r. (name r, methods r, path r)) (registered_by register_core plain_api))"
    by (simp add: comp_def)
  then have cols: "map (\<lambda>r. (methods r, path r)) (registered_by register_core plain_api) =
     [([''GET''], ''/''), ([''GET''], ''/conformance''),
      ([''GET''], ''/catalogs/{catalog_id}/collections/{collection_id}/items/{item_id}''),
      ([''POST''], ''/search''), ([''GET''], ''/search''),
      ([''POST''], ''/catalogs/{catalog_id}/search''),
      ([''GET''], ''/catalogs/{catalog_id}/search''),
      ([''GET''], ''/collections''), ([''GET''], ''/catalogs''),
      ([''GET''], ''/catalogs/{catalog_id}/collections/{collection_id}''),
      ([''GET''], ''/catalogs/{catalog_id}''),
      ([''GET''], ''/catalogs/{catalog_id}/collections/{collection_id}/items''),
      ([''GET''], ''/catalogs/{catalog_id}/collections'')]"
    by (simp add: core_keys start)
  show ?thesis
    unfolding all cols core_stages by simp
qed

section \<open>Request model of the items listing\<close>

text \<open>
  C5. \<open>register_get_item_collection\<close> registers
  \<open>GET /catalogs/{catalog_id}/collections/{collection_id}/items\<close> with a request model
  built by \<open>create_request_model\<close> from the base \<open>ItemCollectionUri\<close>: with the \<open>GET\<close>
  mixin of the pagination extension (the first instance of the configured
  \<open>pagination_extension\<close> class) as the only mixin when there is such an instance, and
  with no mixins (\<open>mixins=None\<close>) when the extensions list holds no instance of that
  class. The route keeps this handler in the assembled application, where it is the
  twelfth core route.
\<close>

theorem item_collection_request_model:
  "map (\<lambda>r. (methods r, path r, endpoint r)) (registered_by register_get_item_collection self) =
     [([''GET''],
       router_prefix (router self) @ ''/catalogs/{catalog_id}/collections/{collection_id}/items'',
       create_async_endpoint item_collection
         (create_request_model ''ItemCollectionURI'' ItemCollectionUri
            (case get_extension self (pagination_extension self) of
               Some ext \<Rightarrow> Some [GET ext] | None \<Rightarrow> None)))] \<and>
   (get_extension self (pagination_extension self) = None \<longleftrightarrow>
      (\<forall>e\<in>set (extensions self). \<not> isinstance e (pagination_extension self))) \<and>
   endpoint (routes (app (assembled self)) ! (core_offset self + 11)) =
     create_async_endpoint item_collection
       (create_request_model ''ItemCollectionURI'' ItemCollectionUri
          (case get_extension self (pagination_extension self) of
             Some ext \<Rightarrow> Some [GET ext] | None \<Rightarrow> None))"
proof (intro conjI)
  show "map (\<lambda>r. (methods r, path r, endpoint r))
          (registered_by register_get_item_collection self) =
     [([''GET''],
       router_prefix (router self) @ ''/catalogs/{catalog_id}/collections/{collection_id}/items'',
       create_async_endpoint item_collection
         (create_request_model ''ItemCollectionURI'' ItemCollectionUri
            (case get_extension self (pagination_extension self) of
               Some ext \<Rightarrow> Some [GET ext] | None \<Rightarrow> None)))]"
    by (simp add: registered_by_def register_get_item_collection_def add_api_route_def
        api_route_def Let_def)
next
  show "get_extension self (pagination_extension self) = None \<longleftrightarrow>
      (\<forall>e\<in>set (extensions self). \<not> isinstance e (pagination_extension self))"
    by (rule get_extension_None)
next
  have "endpoint (routes (app (assembled self)) ! (core_offset self + 11)) =
          map endpoint (registered_by register_core self) ! 11"
    by (rule core_nth_endpoint) simp
  then show "endpoint (routes (app (assembled self)) ! (core_offset self + 11)) =
     create_async_endpoint item_collection
       (create_request_model ''ItemCollectionURI'' ItemCollectionUri
          (case get_extension self (pagination_extension self) of
             Some ext \<Rightarrow> Some [GET ext] | None \<Rightarrow> None))"
    by (simp add: core_endpoints)
qed

theorem item_collection_request_model_witness:
  "endpoint (routes (app (assembled two_fields_api)) ! 11) =
     create_async_endpoint item_collection
       (create_request_model ''ItemCollectionURI'' ItemCollectionUri
          (Some [Some (Request_class ''GETTokenPagination'')])) \<and>
   endpoint (routes (app (assembled plain_api)) ! 11) =
     create_async_endpoint item_collection
       (create_request_model ''ItemCollectionURI'' ItemCollectionUri None)"
proof -
  have a: "get_extension two_fields_api (pagination_extension two_fields_api)
             = Some token_pagination_ext"
    "core_offset two_fields_api = 0"
    "GET token_pagination_ext = Some (Request_class ''GETTokenPagination'')"
    by (simp_all add: get_extension_def isinstance_def two_fields_api_def plain_api_def
        token_pagination_ext_def plain_extension_def core_offset_def)
  have b: "get_extension plain_api (pagination_extension plain_api) = None"
    by (simp add: get_extension_def plain_api_fields)
  show ?thesis
    using item_collection_request_model [of two_fields_api]
      item_collection_request_model [of plain_api]
    by (simp add: a b plain_api_fields)
qed

section \<open>Response model of the collections listing\<close>

text \<open>
  C2, as the code has it. The response model of the \<open>GET /collections\<close> route registered
  by \<open>register_get_collections\<close> is \<open>None\<close> when \<open>settings.enable_response_models\<close> is
  false, and also when the first instance of \<open>CollectionSearchExtension\<close> in the
  extensions list is truthy (as an instance is unless its class says otherwise); it is
  the \<open>Collections\<close> schema when \<open>enable_response_models\<close> is true and the list holds no
  instance of \<open>CollectionSearchExtension\<close> or the first one is falsy. The assembled
  application declares the same for this route, its eighth core route.
\<close>

theorem get_collections_response_model:
  "map declared (registered_by register_get_collections self) =
     [([''GET''], router_prefix (router self) @ ''/collections'',
       if enable_response_models (settings self) \<and>
          \<not> truth_value (get_extension self CollectionSearchExtension)
       then Some Collections else None)] \<and>
   declared (routes (app (assembled self)) ! (core_offset self + 7)) =
     ([''GET''], router_prefix (router self) @ ''/collections'',
      if enable_response_models (settings self) \<and>
         \<not> truth_value (get_extension self CollectionSearchExtension)
      then Some Collections else None) \<and>
   (truth_value (get_extension self CollectionSearchExtension) \<longleftrightarrow>
      (\<exists>i<length (extensions self).
         isinstance (extensions self ! i) CollectionSearchExtension \<and>
         truthy (extensions self ! i) \<and>
         (\<forall>j<i. \<not> isinstance (extensions self ! j) CollectionSearchExtension)))"
proof (intro conjI)
  show "map declared (registered_by register_get_collections self) =
     [([''GET''], router_prefix (router self) @ ''/collections'',
       if enable_response_models (settings self) \<and>
          \<not> truth_value (get_extension self CollectionSearchExtension)
       then Some Collections else None)]"
    by (simp add: registered_by_def register_get_collections_def add_api_route_def
        api_route_def Let_def declared_def)
next
  have "declared (routes (app (assembled self)) ! (core_offset self + 7)) =
          map declared (registered_by register_core self) ! 7"
    by (rule core_nth_declared) simp
  then show "declared (routes (app (assembled self)) ! (core_offset self + 7)) =
     ([''GET''], router_prefix (router self) @ ''/collections'',
      if enable_response_models (settings self) \<and>
         \<not> truth_value (get_extension self CollectionSearchExtension)
      then Some Collections else None)"
    by (simp add: core_declared)
next
  show "truth_value (get_extension self CollectionSearchExtension) \<longleftrightarrow>
      (\<exists>i<length (extensions self).
         isinstance (extensions self ! i) CollectionSearchExtension \<and>
         truthy (extensions self ! i) \<and>
         (\<forall>j<i. \<not> isinstance (extensions self ! j) CollectionSearchExtension))"
    by (rule truth_value_get_extension)
qed

theorem get_collections_response_model_witness:
  "declared (routes (app (assembled plain_api)) ! 7) =
     ([''GET''], ''/collections'', Some Collections) \<and>
   declared (routes (app (assembled collection_search_api)) ! 7) =
     ([''GET''], ''/collections'', None) \<and>
   declared (routes (app (assembled falsy_api)) ! 7) =
     ([''GET''], ''/collections'', Some Collections)"
proof -
  have a: "get_extension collection_search_api CollectionSearchExtension
             = Some collection_search_ext"
    "truthy collection_search_ext"
    "core_offset collection_search_api = 0"
    "router_prefix (router collection_search_api) = []"
    "enable_response_models (settings collection_search_api)"
    by (simp_all add: collection_search_api_def collection_search_ext_def isinstance_def
        get_extension_def plain_extension_def core_offset_def plain_api_def
        example_settings_def)
  have b: "get_extension falsy_api CollectionSearchExtension
             = Some falsy_collection_search_ext"
    "\<not> truthy falsy_collection_search_ext"
    "core_offset falsy_api = 0"
    "router_prefix (router falsy_api) = []"
    "enable_response_models (settings falsy_api)"
    by (simp_all add: falsy_api_def falsy_collection_search_ext_def falsy_fields_ext_def
        isinstance_def get_extension_def plain_extension_def core_offset_def plain_api_def
        example_settings_def)
  have c: "get_extension plain_api CollectionSearchExtension = None"
    by (simp add: get_extension_def plain_api_fields)
  show ?thesis
    using get_collections_response_model [of plain_api]
      get_collections_response_model [of collection_search_api]
      get_collections_response_model [of falsy_api]
    by (simp add: a b c plain_api_fields)
qed

text \<open>
  As stated for every assembled application the claim fails: with
  \<open>enable_response_models\<close> false and no extension at all, the route declares no
  response model.
\<close>

theorem get_collections_response_model_counterexample:
  "extensions no_models_api = [] \<and>
   attrs_post_init no_models_api = Inr (assembled no_models_api) \<and>
   map declared (registered_by register_get_collections no_models_api) =
     [([''GET''], ''/collections'', None)] \<and>
   declared (routes (app (assembled no_models_api)) ! 7) = ([''GET''], ''/collections'', None)"
proof -
  have a: "extensions no_models_api = []" "core_offset no_models_api = 0"
    "router_prefix (router no_models_api) = []"
    "\<not> enable_response_models (settings no_models_api)"
    "router_routes (router no_models_api) = []"
    by (simp_all add: no_models_api_def plain_api_def core_offset_def)
  have "declared (routes (app (assembled no_models_api)) ! (core_offset no_models_api + 7)) =
          map declared (registered_by register_core no_models_api) ! 7"
    by (rule core_nth_declared) simp
  then have "declared (routes (app (assembled no_models_api)) ! 7) =
               ([''GET''], ''/collections'', None)"
    by (simp add: core_declared a)
  moreover have "map declared (registered_by register_get_collections no_models_api) =
     [([''GET''], ''/collections'', None)]"
    by (simp add: registered_by_def register_get_collections_def add_api_route_def
        api_route_def Let_def declared_def a)
  ultimately show ?thesis
    by (simp add: a attrs_post_init_assembled)
qed

section \<open>Response models of the search routes\<close>

text \<open>
  C3, as the code has it. Each of the four search routes (POST and GET \<open>/search\<close>, POST
  and GET \<open>/catalogs/{catalog_id}/search\<close>) is registered with no response model when
  the first instance of \<open>FieldsExtension\<close> in the extensions list is truthy (as an
  instance is unless its class says otherwise), and also whenever
  \<open>settings.enable_response_models\<close> is false; it declares the \<open>ItemCollection\<close> schema
  when \<open>enable_response_models\<close> is true and the list holds no instance of
  \<open>FieldsExtension\<close> or the first one is falsy. The assembled application declares the
  same for these routes, its fourth to seventh core routes.
\<close>

theorem search_response_models:
  "map declared (registered_by register_post_global_search self) =
     [([''POST''], router_prefix (router self) @ ''/search'',
       if enable_response_models (settings self) \<and>
          \<not> truth_value (get_extension self FieldsExtension)
       then Some ItemCollection else None)] \<and>
   map declared (registered_by register_get_global_search self) =
     [([''GET''], router_prefix (router self) @ ''/search'',
       if enable_response_models (settings self) \<and>
          \<not> truth_value (get_extension self FieldsExtension)
       then Some ItemCollection else None)] \<and>
   map declared (registered_by register_post_search self) =
     [([''POST''], router_prefix (router self) @ ''/catalogs/{catalog_id}/search'',
       if enable_response_models (settings self) \<and>
          \<not> truth_value (get_extension self FieldsExtension)
       then Some ItemCollection else None)] \<and>
   map declared (registered_by register_get_search self) =
     [([''GET''], router_prefix (router self) @ ''/catalogs/{catalog_id}/search'',
       if enable_response_models (settings self) \<and>
          \<not> truth_value (get_extension self FieldsExtension)
       then Some ItemCollection else None)] \<and>
   map (\<lambda>i. declared (routes (app (assembled self)) ! (core_offset self + i))) [3, 4, 5, 6] =
     map (\<lambda>(m, p). ([m], router_prefix (router self) @ p,
                     if enable_response_models (settings self) \<and>
                        \<not> truth_value (get_extension self FieldsExtension)
                     then Some ItemCollection else None))
       [(''POST'', ''/search''), (''GET'', ''/search''),
        (''POST'', ''/catalogs/{catalog_id}/search''),
        (''GET'', ''/catalogs/{catalog_id}/search'')] \<and>
   (truth_value (get_extension self FieldsExtension) \<longleftrightarrow>
      (\<exists>i<length (extensions self).
         isinstance (extensions self ! i) FieldsExtension \<and>
         truthy (extensions self ! i) \<and>
         (\<forall>j<i. \<not> isinstance (extensions self ! j) FieldsExtension)))"
proof -
  have one:
    "map declared (registered_by register_post_global_search self) =
     [([''POST''], router_prefix (router self) @ ''/search'',
       if enable_response_models (settings self) \<and>
          \<not> truth_value (get_extension self FieldsExtension)
       then Some ItemCollection else None)]"
    by (simp add: registered_by_def register_post_global_search_def add_api_route_def
        api_route_def Let_def declared_def)
  have two:
    "map declared (registered_by register_get_global_search self) =
     [([''GET''], router_prefix (router self) @ ''/search'',
       if enable_response_models (settings self) \<and>
          \<not> truth_value (get_extension self FieldsExtension)
       then Some ItemCollection else None)]"
    by (simp add: registered_by_def register_get_global_search_def add_api_route_def
        api_route_def Let_def declared_def)
  have three:
    "map declared (registered_by register_post_search self) =
     [([''POST''], router_prefix (router self) @ ''/catalogs/{catalog_id}/search'',
       if enable_response_models (settings self) \<and>
          \<not> truth_value (get_extension self FieldsExtension)
       then Some ItemCollection else None)]"
    by (simp add: registered_by_def register_post_search_def add_api_route_def
        api_route_def Let_def declared_def)
  have four:
    "map declared (registered_by register_get_search self) =
     [([''GET''], router_prefix (router self) @ ''/catalogs/{catalog_id}/search'',
       if enable_response_models (settings self) \<and>
          \<not> truth_value (get_extension self FieldsExtension)
       then Some ItemCollection else None)]"
    by (simp add: registered_by_def register_get_search_def add_api_route_def
        api_route_def Let_def declared_def)
  have nth: "\<And>i. i < 13 \<Longrightarrow>
      declared (routes (app (assembled self)) ! (core_offset self + i)) =
        map declared (registered_by register_core self) ! i"
    by (rule core_nth_declared)
  have assembled:
    "map (\<lambda>i. declared (routes (app (assembled self)) ! (core_offset self + i))) [3, 4, 5, 6] =
     map (\<lambda>(m, p). ([m], router_prefix (router self) @ p,
                     if enable_response_models (settings self) \<and>
                        \<not> truth_value (get_extension self FieldsExtension)
                     then Some ItemCollection else None))
       [(''POST'', ''/search''), (''GET'', ''/search''),
        (''POST'', ''/catalogs/{catalog_id}/search''),
        (''GET'', ''/catalogs/{catalog_id}/search'')]"
    by (simp add: nth core_declared)
  have truth: "truth_value (get_extension self FieldsExtension) \<longleftrightarrow>
      (\<exists>i<length (extensions self).
         isinstance (extensions self ! i) FieldsExtension \<and>
         truthy (extensions self ! i) \<and>
         (\<forall>j<i. \<not> isinstance (extensions self ! j) FieldsExtension))"
    by (rule truth_value_get_extension)
  from one two three four assembled truth show ?thesis
    by (intro conjI)
qed

theorem search_response_models_witness:
  "map (\<lambda>i. declared (routes (app (assembled plain_api)) ! i)) [3, 4, 5, 6] =
     [([''POST''], ''/search'', Some ItemCollection),
      ([''GET''], ''/search'', Some ItemCollection),
      ([''POST''], ''/catalogs/{catalog_id}/search'', Some ItemCollection),
      ([''GET''], ''/catalogs/{catalog_id}/search'', Some ItemCollection)] \<and>
   map (\<lambda>i. declared (routes (app (assembled two_fields_api)) ! i)) [3, 4, 5, 6] =
     [([''POST''], ''/search'', None),
      ([''GET''], ''/search'', None),
      ([''POST''], ''/catalogs/{catalog_id}/search'', None),
      ([''GET''], ''/catalogs/{catalog_id}/search'', None)] \<and>
   map (\<lambda>i. declared (routes (app (assembled falsy_api)) ! i)) [3, 4, 5, 6] =
     [([''POST''], ''/search'', Some ItemCollection),
      ([''GET''], ''/search'', Some ItemCollection),
      ([''POST''], ''/catalogs/{catalog_id}/search'', Some ItemCollection),
      ([''GET''], ''/catalogs/{catalog_id}/search'', Some ItemCollection)]"
proof -
  have a: "get_extension two_fields_api FieldsExtension = Some fields_ext1"
    "truthy fields_ext1"
    "core_offset two_fields_api = 0"
    "router_prefix (router two_fields_api) = []"
    "enable_response_models (settings two_fields_api)"
    by (simp_all add: two_fields_api_def fields_ext1_def token_pagination_ext_def
        isinstance_def get_extension_def plain_extension_def core_offset_def plain_api_def
        example_settings_def)
  have b: "get_extension falsy_api FieldsExtension = Some falsy_fields_ext"
    "\<not> truthy falsy_fields_ext"
    "core_offset falsy_api = 0"
    "router_prefix (router falsy_api) = []"
    "enable_response_models (settings falsy_api)"
    by (simp_all add: falsy_api_def falsy_fields_ext_def isinstance_def get_extension_def
        plain_extension_def core_offset_def plain_api_def example_settings_def)
  have c: "get_extension plain_api FieldsExtension = None"
    by (simp add: get_extension_def plain_api_fields)
  show ?thesis
    using search_response_models [of plain_api] search_response_models [of two_fields_api]
      search_response_models [of falsy_api]
    by (simp add: a b c plain_api_fields)
qed

text \<open>
  As stated the claim fails where response models are switched off: without any
  \<open>FieldsExtension\<close> the four search routes then declare no response model instead of
  \<open>ItemCollection\<close>.
\<close>

theorem search_response_models_counterexample:
  "extensions no_models_api = [] \<and>
   attrs_post_init no_models_api = Inr (assembled no_models_api) \<and>
   map (\<lambda>i. declared (routes (app (assembled no_models_api)) ! i)) [3, 4, 5, 6] =
     [([''POST''], ''/search'', None),
      ([''GET''], ''/search'', None),
      ([''POST''], ''/catalogs/{catalog_id}/search'', None),
      ([''GET''], ''/catalogs/{catalog_id}/search'', None)]"
proof -
  have a: "extensions no_models_api = []" "core_offset no_models_api = 0"
    "router_prefix (router no_models_api) = []"
    "\<not> enable_response_models (settings no_models_api)"
    by (simp_all add: no_models_api_def plain_api_def core_offset_def)
  have nth: "\<And>i. i < 13 \<Longrightarrow>
      declared (routes (app (assembled no_models_api)) ! (core_offset no_models_api + i)) =
        map declared (registered_by register_core no_models_api) ! i"
    by (rule core_nth_declared)
  have "map (\<lambda>i. declared (routes (app (assembled no_models_api)) ! i)) [3, 4, 5, 6] =
     [([''POST''], ''/search'', None),
      ([''GET''], ''/search'', None),
      ([''POST''], ''/catalogs/{catalog_id}/search'', None),
      ([''GET''], ''/catalogs/{catalog_id}/search'', None)]"
    using nth [of 3] nth [of 4] nth [of 5] nth [of 6]
    by (simp add: core_declared a)
  then show ?thesis
    by (simp add: a attrs_post_init_assembled)
qed

section \<open>Response models switched off\<close>

text \<open>
  C9. When \<open>settings.enable_response_models\<close> is false, every route registered by
  \<open>register_core\<close> has response model \<open>None\<close>, on the router and in the assembled
  application. Replacing the extensions list by any other list then leaves the response
  models of the core routes as they are: the extensions have no influence on them.
\<close>

theorem response_models_disabled:
  assumes "\<not> enable_response_models (settings self)"
  shows "(\<forall>r\<in>set (registered_by register_core self). response_model r = None) \<and>
     map response_model (registered_by register_core (self\<lparr>extensions := exts\<rparr>)) =
       map response_model (registered_by register_core self) \<and>
     map response_model (take 13 (drop (core_offset self) (routes (app (assembled self))))) =
       replicate 13 None \<and>
     map response_model
       (take 13 (drop (core_offset self)
          (routes (app (assembled (self\<lparr>extensions := exts\<rparr>)))))) =
       map response_model (take 13 (drop (core_offset self) (routes (app (assembled self)))))"
proof -
  have off: "\<not> enable_response_models (settings (self\<lparr>extensions := exts\<rparr>))"
    using assms by simp
  have here: "map response_model (registered_by register_core self) = replicate 13 None"
    using assms by (simp add: core_response_models)
  have there: "map response_model (registered_by register_core (self\<lparr>extensions := exts\<rparr>))
                 = replicate 13 None"
    using off by (simp only: core_response_models if_False)
  have all_none: "\<forall>r\<in>set (registered_by register_core self). response_model r = None"
  proof
    fix r
    assume "r \<in> set (registered_by register_core self)"
    then have "response_model r \<in> set (map response_model (registered_by register_core self))"
      by simp
    then show "response_model r = None"
      unfolding here by simp
  qed
  have seg: "\<And>s. map response_model (take 13 (drop (core_offset s) (routes (app (assembled s)))))
               = map response_model (registered_by register_core s)"
    by (simp add: assembled_core_segment comp_def)
  have offset: "core_offset (self\<lparr>extensions := exts\<rparr>) = core_offset self"
    by (simp add: core_offset_def)
  have seg': "map response_model
       (take 13 (drop (core_offset self)
          (routes (app (assembled (self\<lparr>extensions := exts\<rparr>))))))
       = map response_model (registered_by register_core (self\<lparr>extensions := exts\<rparr>))"
    using seg [of "self\<lparr>extensions := exts\<rparr>"] by (simp only: offset)
  show ?thesis
    using all_none by (simp only: here there seg seg' simp_thms)
qed

theorem response_models_disabled_witness:
  "map response_model (take 13 (routes (app (assembled no_models_api)))) = replicate 13 None \<and>
   map response_model
     (take 13 (routes (app (assembled
        (no_models_api\<lparr>extensions := [fields_ext1, collection_search_ext]\<rparr>))))) =
     replicate 13 None"
proof -
  have a: "\<not> enable_response_models (settings no_models_api)"
    "core_offset no_models_api = 0"
    by (simp_all add: no_models_api_def plain_api_def core_offset_def)
  show ?thesis
    using response_models_disabled
      [of no_models_api "[fields_ext1, collection_search_ext]", OF a(1)]
    by (simp add: a)
qed

section \<open>Uniqueness of (path, method) pairs\<close>

text \<open>
  C1, as the code has it. Assembly performs no duplicate check: registering a (path,
  method) pair a second time raises nothing. When \<open>__attrs_post_init__\<close> completes, the
  final route table holds, in this order, the routes the application had before, the
  routes the router had before, the thirteen core routes, the routes added by the
  extension hooks and the health-check route. The (path, method) pairs of the core
  routes and the health check are pairwise distinct. The pairs of the final table are
  unique exactly when the pairs of the routes that the application, the router and the
  extension hooks bring are unique among themselves and none of them is a pair of a core
  route or of the health check.
\<close>

theorem assembly_route_keys:
  assumes "attrs_post_init self = Inr self'"
  shows "route_keys (routes (app self')) =
     route_keys (routes (app self)) @ route_keys (router_routes (router self))
     @ route_keys (registered_by register_core self)
     @ route_keys (concat (map ext_routes (extensions self)))
     @ [(router_prefix (router self) @ ''/_mgmt/ping'', ''GET'')] \<and>
   route_keys (registered_by register_core self) =
     map (\<lambda>(p, m). (router_prefix (router self) @ p, m))
         [(''/'', ''GET''), (''/conformance'', ''GET''),
          (''/catalogs/{catalog_id}/collections/{collection_id}/items/{item_id}'', ''GET''),
          (''/search'', ''POST''), (''/search'', ''GET''),
          (''/catalogs/{catalog_id}/search'', ''POST''),
          (''/catalogs/{catalog_id}/search'', ''GET''),
          (''/collections'', ''GET''), (''/catalogs'', ''GET''),
          (''/catalogs/{catalog_id}/collections/{collection_id}'', ''GET''),
          (''/catalogs/{catalog_id}'', ''GET''),
          (''/catalogs/{catalog_id}/collections/{collection_id}/items'', ''GET''),
          (''/catalogs/{catalog_id}/collections'', ''GET'')] \<and>
   distinct (route_keys (registered_by register_core self)
             @ [(router_prefix (router self) @ ''/_mgmt/ping'', ''GET'')]) \<and>
   (distinct (route_keys (routes (app self'))) \<longleftrightarrow>
      distinct (route_keys (routes (app self)) @ route_keys (router_routes (router self))
                @ route_keys (concat (map ext_routes (extensions self)))) \<and>
      set (route_keys (routes (app self)) @ route_keys (router_routes (router self))
           @ route_keys (concat (map ext_routes (extensions self))))
      \<inter> set (route_keys (registered_by register_core self)
             @ [(router_prefix (router self) @ ''/_mgmt/ping'', ''GET'')]) = {})"
proof -
  have same: "self' = assembled self"
    using assms by (simp add: attrs_post_init_assembled)
  have keys: "route_keys (routes (app self')) =
     route_keys (routes (app self)) @ route_keys (router_routes (router self))
     @ route_keys (registered_by register_core self)
     @ route_keys (concat (map ext_routes (extensions self)))
     @ [(router_prefix (router self) @ ''/_mgmt/ping'', ''GET'')]"
    unfolding same by (rule route_keys_assembled)
  have core: "distinct (route_keys (registered_by register_core self)
             @ [(router_prefix (router self) @ ''/_mgmt/ping'', ''GET'')])"
    by (simp only: route_keys_core core_keys_distinct)
  have unique: "distinct (route_keys (routes (app self'))) \<longleftrightarrow>
      distinct (route_keys (routes (app self)) @ route_keys (router_routes (router self))
                @ route_keys (concat (map ext_routes (extensions self)))) \<and>
      set (route_keys (routes (app self)) @ route_keys (router_routes (router self))
           @ route_keys (concat (map ext_routes (extensions self))))
      \<inter> set (route_keys (registered_by register_core self)
             @ [(router_prefix (router self) @ ''/_mgmt/ping'', ''GET'')]) = {}"
    unfolding keys by (rule distinct_around [OF core])
  from keys core unique show ?thesis
    by (simp only: route_keys_core simp_thms)
qed

theorem assembly_route_keys_witness:
  "attrs_post_init constructed_api = Inr (assembled constructed_api) \<and>
   route_keys (routes (app constructed_api)) =
     [(''/api'', ''GET''), (''/api'', ''HEAD''), (''/api.html'', ''GET''),
      (''/api.html'', ''HEAD''), (''/docs/oauth2-redirect'', ''GET''),
      (''/docs/oauth2-redirect'', ''HEAD'')] \<and>
   length (route_keys (routes (app (assembled constructed_api)))) = 20 \<and>
   distinct (route_keys (routes (app (assembled constructed_api))))"
proof -
  have a: "route_keys (routes (app constructed_api)) =
     [(''/api'', ''GET''), (''/api'', ''HEAD''), (''/api.html'', ''GET''),
      (''/api.html'', ''HEAD''), (''/docs/oauth2-redirect'', ''GET''),
      (''/docs/oauth2-redirect'', ''HEAD'')]"
    "router_routes (router constructed_api) = []"
    "router_prefix (router constructed_api) = []"
    "extensions constructed_api = []"
    by (simp_all add: constructed_api_def plain_api_def default_app_routes_def docs_route_def
        route_keys_def)
  show ?thesis
    using assembly_route_keys [OF attrs_post_init_assembled [of constructed_api]]
    by (simp add: a route_keys_Nil attrs_post_init_assembled)
qed

text \<open>
  As stated the claim fails: an extension whose hook registers a second route for
  \<open>GET /search\<close> does not make assembly fail, and the final table holds the pair twice.
\<close>

theorem assembly_route_keys_counterexample:
  "attrs_post_init duplicate_api = Inr (assembled duplicate_api) \<and>
   route_keys (routes (app (assembled duplicate_api))) =
     [(''/'', ''GET''), (''/conformance'', ''GET''),
      (''/catalogs/{catalog_id}/collections/{collection_id}/items/{item_id}'', ''GET''),
      (''/search'', ''POST''), (''/search'', ''GET''),
      (''/catalogs/{catalog_id}/search'', ''POST''),
      (''/catalogs/{catalog_id}/search'', ''GET''),
      (''/collections'', ''GET''), (''/catalogs'', ''GET''),
      (''/catalogs/{catalog_id}/collections/{collection_id}'', ''GET''),
      (''/catalogs/{catalog_id}'', ''GET''),
      (''/catalogs/{catalog_id}/collections/{collection_id}/items'', ''GET''),
      (''/catalogs/{catalog_id}/collections'', ''GET''),
      (''/search'', ''GET''), (''/_mgmt/ping'', ''GET'')] \<and>
   \<not> distinct (route_keys (routes (app (assembled duplicate_api))))"
proof -
  have a: "routes (app duplicate_api) = []" "router_routes (router duplicate_api) = []"
    "router_prefix (router duplicate_api) = []"
    "extensions duplicate_api = [second_search_ext]"
    "ext_routes second_search_ext = [second_search_route]"
    "route_keys [second_search_route] = [(''/search'', ''GET'')]"
    by (simp_all add: duplicate_api_def plain_api_def second_search_ext_def
        plain_extension_def second_search_route_def route_keys_def)
  have keys: "route_keys (routes (app (assembled duplicate_api))) =
     [(''/'', ''GET''), (''/conformance'', ''GET''),
      (''/catalogs/{catalog_id}/collections/{collection_id}/items/{item_id}'', ''GET''),
      (''/search'', ''POST''), (''/search'', ''GET''),
      (''/catalogs/{catalog_id}/search'', ''POST''),
      (''/catalogs/{catalog_id}/search'', ''GET''),
      (''/collections'', ''GET''), (''/catalogs'', ''GET''),
      (''/catalogs/{catalog_id}/collections/{collection_id}'', ''GET''),
      (''/catalogs/{catalog_id}'', ''GET''),
      (''/catalogs/{catalog_id}/collections/{collection_id}/items'', ''GET''),
      (''/catalogs/{catalog_id}/collections'', ''GET''),
      (''/search'', ''GET''), (''/_mgmt/ping'', ''GET'')]"
    by (simp add: route_keys_assembled route_keys_core route_keys_Nil a)
  show ?thesis
    unfolding keys by (simp add: attrs_post_init_assembled)
qed

section \<open>Side effects of construction on the client and the settings\<close>

text \<open>
  C10, as the code has it. When \<open>__attrs_post_init__\<close> completes it has left the
  attributes \<open>extensions\<close>, \<open>stac_version\<close>, \<open>title\<close> and \<open>description\<close> of the \<open>StacApi\<close>
  as they were and has set \<open>client.extensions\<close>, \<open>client.stac_version\<close>, \<open>client.title\<close>
  and \<open>client.description\<close> to them. The settings are changed exactly when the first
  instance of \<open>FieldsExtension\<close> in the extensions list is truthy (as an instance is
  unless its class says otherwise): then \<open>default_includes\<close> becomes that of this
  instance and nothing else changes. With no instance of \<open>FieldsExtension\<close> in the
  list, or with a falsy first one, the settings are the same as before.
\<close>

theorem construction_side_effects:
  assumes "attrs_post_init self = Inr self'"
  shows "extensions self' = extensions self \<and>
   stac_version self' = stac_version self \<and>
   title self' = title self \<and>
   description self' = description self \<and>
   client_extensions (client self') = extensions self \<and>
   client_stac_version (client self') = stac_version self \<and>
   client_title (client self') = title self \<and>
   client_description (client self') = description self \<and>
   settings self' =
     (case get_extension self FieldsExtension of
        Some ext \<Rightarrow>
          (if truthy ext
           then (settings self)\<lparr>settings_default_includes := default_includes ext\<rparr>
           else settings self)
      | None \<Rightarrow> settings self) \<and>
   (get_extension self FieldsExtension = None \<longleftrightarrow>
      (\<forall>e\<in>set (extensions self). \<not> isinstance e FieldsExtension)) \<and>
   (truth_value (get_extension self FieldsExtension) \<longleftrightarrow>
      (\<exists>i<length (extensions self).
         isinstance (extensions self ! i) FieldsExtension \<and>
         truthy (extensions self ! i) \<and>
         (\<forall>j<i. \<not> isinstance (extensions self ! j) FieldsExtension)))"
proof -
  have same: "self' = assembled self"
    using assms by (simp add: attrs_post_init_assembled)
  have truth: "truth_value (get_extension self FieldsExtension) \<longleftrightarrow>
      (\<exists>i<length (extensions self).
         isinstance (extensions self ! i) FieldsExtension \<and>
         truthy (extensions self ! i) \<and>
         (\<forall>j<i. \<not> isinstance (extensions self ! j) FieldsExtension))"
    by (rule truth_value_get_extension)
  have rest: "extensions self' = extensions self \<and>
   stac_version self' = stac_version self \<and>
   title self' = title self \<and>
   description self' = description self \<and>
   client_extensions (client self') = extensions self \<and>
   client_stac_version (client self') = stac_version self \<and>
   client_title (client self') = title self \<and>
   client_description (client self') = description self \<and>
   settings self' =
     (case get_extension self FieldsExtension of
        Some ext \<Rightarrow>
          (if truthy ext
           then (settings self)\<lparr>settings_default_includes := default_includes ext\<rparr>
           else settings self)
      | None \<Rightarrow> settings self) \<and>
   (get_extension self FieldsExtension = None \<longleftrightarrow>
      (\<forall>e\<in>set (extensions self). \<not> isinstance e FieldsExtension))"
    unfolding same by (simp add: assembled_eq injected_settings_def get_extension_None)
  from rest truth show ?thesis
    by (simp only: simp_thms)
qed

theorem construction_side_effects_witness:
  "settings_default_includes (settings (assembled two_fields_api)) = {''id'', ''type''} \<and>
   settings (assembled plain_api) = example_settings \<and>
   client_extensions (client (assembled two_fields_api)) =
     [token_pagination_ext, fields_ext1, fields_ext2] \<and>
   client_stac_version (client (assembled plain_api)) = ''1.0.0''"
proof -
  have a: "get_extension two_fields_api FieldsExtension = Some fields_ext1"
    "default_includes fields_ext1 = {''id'', ''type''}" "truthy fields_ext1"
    "extensions two_fields_api = [token_pagination_ext, fields_ext1, fields_ext2]"
    by (simp_all add: get_extension_def isinstance_def two_fields_api_def plain_api_def
        fields_ext1_def token_pagination_ext_def plain_extension_def)
  have b: "get_extension plain_api FieldsExtension = None"
    "settings plain_api = example_settings" "stac_version plain_api = ''1.0.0''"
    by (simp_all add: get_extension_def plain_api_def)
  show ?thesis
    using construction_side_effects [OF attrs_post_init_assembled [of two_fields_api]]
      construction_side_effects [OF attrs_post_init_assembled [of plain_api]]
    by (simp add: a b)
qed

text \<open>
  As stated the claim fails: with an instance of a \<open>FieldsExtension\<close> subclass that is
  falsy in the extensions list, \<open>if fields_ext\<close> does not hold and
  \<open>settings.default_includes\<close> stays as it was, although an instance is present.
\<close>

theorem construction_side_effects_counterexample:
  "extensions falsy_api = [falsy_fields_ext, falsy_collection_search_ext] \<and>
   isinstance falsy_fields_ext FieldsExtension \<and>
   get_extension falsy_api FieldsExtension = Some falsy_fields_ext \<and>
   default_includes falsy_fields_ext = {''id''} \<and>
   settings_default_includes (settings falsy_api) = {} \<and>
   attrs_post_init falsy_api = Inr (assembled falsy_api) \<and>
   settings_default_includes (settings (assembled falsy_api)) = {}"
proof -
  have a: "extensions falsy_api = [falsy_fields_ext, falsy_collection_search_ext]"
    "isinstance falsy_fields_ext FieldsExtension"
    "get_extension falsy_api FieldsExtension = Some falsy_fields_ext"
    "default_includes falsy_fields_ext = {''id''}"
    "\<not> truthy falsy_fields_ext"
    "settings_default_includes (settings falsy_api) = {}"
    by (simp_all add: falsy_api_def falsy_fields_ext_def isinstance_def get_extension_def
        plain_extension_def plain_api_def example_settings_def)
  have "settings (assembled falsy_api) = settings falsy_api"
    by (simp add: assembled_eq injected_settings_def a)
  then show ?thesis
    by (simp add: a attrs_post_init_assembled)
qed

section \<open>Route dependencies\<close>

text \<open>
  C7. \<open>__attrs_post_init__\<close> returns, and the final route table is the result of
  applying the entries of \<open>route_dependencies\<close>, each once and in list order, to the
  table that already holds the routes the application had, the routes the router had
  and all core routes (as the application includes them, its own dependencies and tags
  in front), all routes registered by the extensions and the health-check route. Applying
  an overlay to a route keeps the route's dependency chain and puts the overlay's
  dependencies behind it, once for every selector of the overlay that matches the route;
  nothing else of the route changes. So in the final table every route of that table
  has its earlier dependencies followed by those of the matching overlays in declaration
  order.
\<close>

theorem route_dependencies_applied_last:
  "attrs_post_init self = Inr (assembled self) \<and>
   routes (app (assembled self)) =
     foldl (\<lambda>table (scopes, deps). routes_add_route_dependencies table scopes deps)
       (routes (app self)
        @ map (included (app self) [])
            (router_routes (router self) @ registered_by register_core self)
        @ concat (map ext_routes (extensions self))
        @ [included (app self) [''Liveliness/Readiness'']
             (health_check_route (router_prefix (router self)))])
       (route_dependencies self) \<and>
   routes_add_route_dependencies table scopes deps =
     map (\<lambda>r. r\<lparr>dependencies := dependencies r
                  @ concat (replicate (length (filter (scope_matches r) scopes)) deps)\<rparr>)
       table \<and>
   routes (app (assembled self)) =
     map (\<lambda>r. r\<lparr>dependencies := dependencies r
                  @ overlay_dependencies (route_dependencies self) r\<rparr>)
       (table_before_overlays self)"
proof (intro conjI)
  show "attrs_post_init self = Inr (assembled self)"
    by (rule attrs_post_init_assembled)
next
  show "routes (app (assembled self)) =
     foldl (\<lambda>table (scopes, deps). routes_add_route_dependencies table scopes deps)
       (routes (app self)
        @ map (included (app self) [])
            (router_routes (router self) @ registered_by register_core self)
        @ concat (map ext_routes (extensions self))
        @ [included (app self) [''Liveliness/Readiness'']
             (health_check_route (router_prefix (router self)))])
       (route_dependencies self)"
    by (simp add: assembled_routes apply_overlays_def table_before_overlays_def)
next
  show "routes_add_route_dependencies table scopes deps =
     map (\<lambda>r. r\<lparr>dependencies := dependencies r
                  @ concat (replicate (length (filter (scope_matches r) scopes)) deps)\<rparr>)
       table"
    by (simp add: routes_add_route_dependencies_def apply_scopes_eq)
next
  show "routes (app (assembled self)) =
     map (\<lambda>r. r\<lparr>dependencies := dependencies r
                  @ overlay_dependencies (route_dependencies self) r\<rparr>)
       (table_before_overlays self)"
    by (rule assembled_table)
qed

theorem route_dependencies_applied_last_witness:
  "map dependencies (routes (app (assembled overlay_api))) =
     [[], [], [], [],
      [Depends ''oauth2_scheme'', Depends ''rate_limit'', Depends ''audit''],
      [], [], [], [], [], [], [], [],
      [Depends ''api_key'', Depends ''oauth2_scheme'', Depends ''rate_limit'',
       Depends ''audit''],
      []]"
proof -
  have a: "routes (app overlay_api) = []" "router_routes (router overlay_api) = []"
    "router_prefix (router overlay_api) = []"
    "extensions overlay_api = [second_search_ext]"
    "ext_routes second_search_ext = [second_search_route]"
    "route_dependencies overlay_api =
       [([search_scope], [Depends ''oauth2_scheme'']),
        ([\<lparr>scope_path = ''/nowhere'', scope_method = ''GET''\<rparr>], [Depends ''unused'']),
        ([search_scope], [Depends ''rate_limit'', Depends ''audit''])]"
    by (simp_all add: overlay_api_def duplicate_api_def plain_api_def second_search_ext_def
        plain_extension_def)
  have cols: "map (\<lambda>r. (methods r, path r, dependencies r)) (table_before_overlays overlay_api) =
     [([''GET''], ''/'', []), ([''GET''], ''/conformance'', []),
      ([''GET''], ''/catalogs/{catalog_id}/collections/{collection_id}/items/{item_id}'', []),
      ([''POST''], ''/search'', []), ([''GET''], ''/search'', []),
      ([''POST''], ''/catalogs/{catalog_id}/search'', []),
      ([''GET''], ''/catalogs/{catalog_id}/search'', []),
      ([''GET''], ''/collections'', []), ([''GET''], ''/catalogs'', []),
      ([''GET''], ''/catalogs/{catalog_id}/collections/{collection_id}'', []),
      ([''GET''], ''/catalogs/{catalog_id}'', []),
      ([''GET''], ''/catalogs/{catalog_id}/collections/{collection_id}/items'', []),
      ([''GET''], ''/catalogs/{catalog_id}/collections'', []),
      ([''GET''], ''/search'', [Depends ''api_key'']),
      ([''GET''], ''/_mgmt/ping'', [])]"
    by (simp add: table_before_overlays_def a registered_by_def register_core_unfold
        register_defs add_api_route_def api_route_def Let_def health_check_route_def
        second_search_route_def included_def plain_api_def overlay_api_def duplicate_api_def)
  have dep: "\<And>r. overlay_dependencies (route_dependencies overlay_api) r =
      (if path r = ''/search'' \<and> ''GET'' \<in> set (methods r)
       then [Depends ''oauth2_scheme''] else [])
      @ (if path r = ''/nowhere'' \<and> ''GET'' \<in> set (methods r)
         then [Depends ''unused''] else [])
      @ (if path r = ''/search'' \<and> ''GET'' \<in> set (methods r)
         then [Depends ''rate_limit'', Depends ''audit''] else [])"
    by (simp add: overlay_dependencies_def a scope_matches_def search_scope_def)
  have "map dependencies (routes (app (assembled overlay_api))) =
          map (\<lambda>(ms, p, ds). ds
                 @ (if p = ''/search'' \<and> ''GET'' \<in> set ms
                    then [Depends ''oauth2_scheme''] else [])
                 @ (if p = ''/nowhere'' \<and> ''GET'' \<in> set ms
                    then [Depends ''unused''] else [])
                 @ (if p = ''/search'' \<and> ''GET'' \<in> set ms
                    then [Depends ''rate_limit'', Depends ''audit''] else []))
            (map (\<lambda>r. (methods r, path r, dependencies r)) (table_before_overlays overlay_api))"
    unfolding route_dependencies_applied_last
      [of overlay_api "[]" "[]" "[]", THEN conjunct2, THEN conjunct2, THEN conjunct2]
    by (simp add: dep comp_def)
  then show ?thesis
    unfolding cols by simp
qed

section \<open>Health check\<close>

text \<open>
  C8, as the code has it. When \<open>__attrs_post_init__\<close> completes, the last route of the
  final table is the health check, whatever the extensions, the settings and the route
  dependencies: \<open>GET\<close> on the router prefix followed by \<open>/_mgmt/ping\<close>, with the handler
  that returns the fixed body \<open>{"message": "PONG"}\<close>. It is not exempt from guards: its
  dependency chain holds the application's own dependencies followed by the
  dependencies of every overlay whose selector names its path and method. A \<open>GET\<close>
  request that reaches the route table is answered with the fixed body provided that no
  earlier route of the table matches the request, the health-check path matches the
  URL, and every guard in the route's dependency chain lets the request pass.
\<close>

theorem health_check_fixed_body:
  assumes "attrs_post_init self = Inr self'"
  shows "routes (app self') \<noteq> [] \<and>
   path (last (routes (app self'))) = router_prefix (router self) @ ''/_mgmt/ping'' \<and>
   methods (last (routes (app self'))) = [''GET''] \<and>
   endpoint (last (routes (app self'))) = ping_endpoint \<and>
   call_endpoint result (endpoint (last (routes (app self')))) = [(''message'', ''PONG'')] \<and>
   dependencies (last (routes (app self'))) =
     app_dependencies (app self)
     @ overlay_dependencies (route_dependencies self)
         (health_check_route (router_prefix (router self))) \<and>
   ((\<forall>r\<in>set (butlast (routes (app self'))).
       \<not> (matches (path r) url \<and> ''GET'' \<in> set (methods r))) \<and>
    matches (router_prefix (router self) @ ''/_mgmt/ping'') url \<and>
    (\<forall>d\<in>set (dependencies (last (routes (app self')))). passes d) \<longrightarrow>
    serve matches passes result (routes (app self')) ''GET'' url =
      Returned [(''message'', ''PONG'')])"
proof -
  have same: "self' = assembled self"
    using assms by (simp add: attrs_post_init_assembled)
  let ?t = "routes (app self')"
  let ?h = "health_check_route (router_prefix (router self))"
  let ?h' = "(included (app self) [''Liveliness/Readiness''] ?h)\<lparr>dependencies :=
               app_dependencies (app self)
               @ overlay_dependencies (route_dependencies self) ?h\<rparr>"
  have split: "?t = butlast ?t @ [?h']"
    unfolding same by (rule assembled_last)
  have nonempty: "?t \<noteq> []"
    using split by (metis snoc_eq_iff_butlast)
  have last: "last ?t = ?h'"
    using split by (metis last_snoc)
  have fields: "path (last ?t) = router_prefix (router self) @ ''/_mgmt/ping''"
    "methods (last ?t) = [''GET'']" "endpoint (last ?t) = ping_endpoint"
    "dependencies (last ?t) =
       app_dependencies (app self) @ overlay_dependencies (route_dependencies self) ?h"
    unfolding last by (simp_all add: health_check_route_def)
  have body: "call_endpoint result (endpoint (last ?t)) = [(''message'', ''PONG'')]"
    unfolding fields by (simp add: ping_def)
  have served: "serve matches passes result ?t ''GET'' url = Returned [(''message'', ''PONG'')]"
    if "(\<forall>r\<in>set (butlast ?t). \<not> (matches (path r) url \<and> ''GET'' \<in> set (methods r))) \<and>
        matches (router_prefix (router self) @ ''/_mgmt/ping'') url \<and>
        (\<forall>d\<in>set (dependencies (last ?t)). passes d)"
  proof -
    have guards: "find (\<lambda>d. \<not> passes d) (dependencies ?h') = None"
      using that unfolding last by (auto simp: find_None_iff)
    have "serve matches passes result ?t ''GET'' url =
       (case find (\<lambda>d. \<not> passes d) (dependencies ?h') of
          Some d \<Rightarrow> Refused d
        | None \<Rightarrow> Returned (call_endpoint result (endpoint ?h')))"
    proof (rule serve_last_route)
      show "\<forall>r\<in>set (butlast ?t). \<not> (matches (path r) url \<and> ''GET'' \<in> set (methods r))"
        using that by simp
      show "?t = butlast ?t @ [?h']"
        by (rule split)
      show "matches (path ?h') url"
        using that by (simp add: health_check_route_def)
      show "''GET'' \<in> set (methods ?h')"
        by (simp add: health_check_route_def)
    qed
    then show ?thesis
      unfolding guards by (simp add: health_check_route_def ping_def)
  qed
  from nonempty fields body served show ?thesis
    by simp
qed

theorem health_check_fixed_body_witness:
  "dependencies (last (routes (app (assembled app_guard_api)))) = [Depends ''api_key''] \<and>
   serve exact_match no_credentials empty_result (routes (app (assembled app_guard_api)))
     ''GET'' ''/_mgmt/ping'' = Returned [(''message'', ''PONG'')]"
proof -
  let ?t = "routes (app (assembled app_guard_api))"
  have a: "routes (app app_guard_api) = default_app_routes"
    "app_dependencies (app app_guard_api) = [Depends ''api_key'']"
    "router_routes (router app_guard_api) = []"
    "router_prefix (router app_guard_api) = []"
    "extensions app_guard_api = []"
    "route_dependencies app_guard_api = []"
    by (simp_all add: app_guard_api_def plain_api_def)
  have cols: "map (\<lambda>r. (path r, methods r)) (butlast ?t) =
     [(''/api'', [''GET'', ''HEAD'']), (''/api.html'', [''GET'', ''HEAD'']),
      (''/docs/oauth2-redirect'', [''GET'', ''HEAD'']),
      (''/'', [''GET'']), (''/conformance'', [''GET'']),
      (''/catalogs/{catalog_id}/collections/{collection_id}/items/{item_id}'', [''GET'']),
      (''/search'', [''POST'']), (''/search'', [''GET'']),
      (''/catalogs/{catalog_id}/search'', [''POST'']),
      (''/catalogs/{catalog_id}/search'', [''GET'']),
      (''/collections'', [''GET'']), (''/catalogs'', [''GET'']),
      (''/catalogs/{catalog_id}/collections/{collection_id}'', [''GET'']),
      (''/catalogs/{catalog_id}'', [''GET'']),
      (''/catalogs/{catalog_id}/collections/{collection_id}/items'', [''GET'']),
      (''/catalogs/{catalog_id}/collections'', [''GET''])]"
  proof -
    have "map (\<lambda>r. (path r, methods r)) (registered_by register_core app_guard_api) =
            map (\<lambda>(n, m, p). (p, m))
              (map (\<lambda>r. (name r, methods r, path r))
                 (registered_by register_core app_guard_api))"
      by (simp add: comp_def)
    then show ?thesis
      by (simp add: butlast_paths a core_keys default_app_routes_def docs_route_def)
  qed
  have earlier: "\<forall>r\<in>set (butlast ?t).
      \<not> (exact_match (path r) ''/_mgmt/ping'' \<and> ''GET'' \<in> set (methods r))"
    by (rule not_matched_before) (simp add: cols exact_match_def)
  show ?thesis
    using health_check_fixed_body
      [OF attrs_post_init_assembled [of app_guard_api],
       of empty_result exact_match "''/_mgmt/ping''" no_credentials]
      earlier
    by (simp add: a exact_match_def overlay_dependencies_def no_credentials_def)
qed

text \<open>
  As stated the claim fails: a route dependency whose selector names the health check
  is attached to it like to any other route, and a request that the guard refuses does
  not get the fixed body.
\<close>

theorem health_check_fixed_body_counterexample:
  "attrs_post_init guarded_ping_api = Inr (assembled guarded_ping_api) \<and>
   dependencies (last (routes (app (assembled guarded_ping_api)))) =
     [Depends ''oauth2_scheme''] \<and>
   serve exact_match no_credentials empty_result (routes (app (assembled guarded_ping_api)))
     ''GET'' ''/_mgmt/ping'' = Refused (Depends ''oauth2_scheme'')"
proof -
  let ?t = "routes (app (assembled guarded_ping_api))"
  let ?h = "(included (app guarded_ping_api) [''Liveliness/Readiness'']
              (health_check_route []))\<lparr>dependencies := [Depends ''oauth2_scheme'']\<rparr>"
  have a: "routes (app guarded_ping_api) = []" "router_routes (router guarded_ping_api) = []"
    "router_prefix (router guarded_ping_api) = []"
    "extensions guarded_ping_api = []"
    "app_dependencies (app guarded_ping_api) = []"
    "route_dependencies guarded_ping_api = [([ping_scope], [Depends ''oauth2_scheme''])]"
    by (simp_all add: guarded_ping_api_def plain_api_def)
  have deps: "overlay_dependencies [([ping_scope], [Depends ''oauth2_scheme''])]
                (health_check_route []) = [Depends ''oauth2_scheme'']"
    by (simp add: overlay_dependencies_def scope_matches_def ping_scope_def
        health_check_route_def)
  have split: "?t = butlast ?t @ [?h]"
    using assembled_last [of guarded_ping_api] by (simp only: a deps append_Nil)
  have last: "last ?t = ?h"
    using split by (metis last_snoc)
  have earlier: "\<forall>r\<in>set (butlast ?t).
      \<not> (exact_match (path r) ''/_mgmt/ping'' \<and> ''GET'' \<in> set (methods r))"
    using plain_core_not_ping [OF a(3)]
    by (simp add: assembled_butlast a exact_match_def)
  have "serve exact_match no_credentials empty_result ?t ''GET'' ''/_mgmt/ping'' =
     (case find (\<lambda>d. \<not> no_credentials d) (dependencies ?h) of
        Some d \<Rightarrow> Refused d
      | None \<Rightarrow> Returned (call_endpoint empty_result (endpoint ?h)))"
    using earlier split
    by (rule serve_last_route) (simp_all add: health_check_route_def exact_match_def)
  then have "serve exact_match no_credentials empty_result ?t ''GET'' ''/_mgmt/ping'' =
      Refused (Depends ''oauth2_scheme'')"
    by (simp add: no_credentials_def)
  then show ?thesis
    unfolding last by (simp add: attrs_post_init_assembled)
qed

end
